theory Spec2Isabelle
  imports Complex_Main "HOL-Library.AList" "HOL-Library.Multiset"
begin

section \<open>JavaScript values\<close>

text \<open>
  A JavaScript number is a finite value or one of the three special values. Every finite
  double is a real number, and the operations used below (\<open>Math.round\<close>, \<open>Math.min\<close>,
  \<open>Math.max\<close>) are exact on them. The sign of zero is not modelled.
\<close>

datatype jsnum = Fin real | PosInf | NegInf | NaN

text \<open>
  The result of \<open>JSON.parse\<close> and of \<open>request.json()\<close>. An object is the list of its
  properties; a property that is not in the list reads as \<open>undefined\<close>, which is
  \<open>None\<close> below.
\<close>

datatype json =
    JNull
  | JBool bool
  | JNum jsnum
  | JStr string
  | JArr "json list"
  | JObj "(string \<times> json) list"

text \<open>Reading a property. A primitive value or an array has no property of the names used here.\<close>

fun get_prop :: "json \<Rightarrow> string \<Rightarrow> json option" where
  "get_prop (JObj kvs) k = map_of kvs k"
| "get_prop _ k = None"

text \<open>\<open>x ?? d\<close> on an optional property: \<open>undefined\<close> and \<open>null\<close> give the default.\<close>

fun nullish_json :: "json option \<Rightarrow> json \<Rightarrow> json" where
  "nullish_json None d = d"
| "nullish_json (Some JNull) d = d"
| "nullish_json (Some v) d = v"

text \<open>\<open>x ?? d\<close> on an optional field of a typed response.\<close>

fun nullish :: "'a option \<Rightarrow> 'a \<Rightarrow> 'a" where
  "nullish None d = d"
| "nullish (Some v) d = v"

text \<open>\<open>!x\<close> on an optional property.\<close>

fun falsy :: "json option \<Rightarrow> bool" where
  "falsy None = True"
| "falsy (Some JNull) = True"
| "falsy (Some (JBool b)) = (\<not> b)"
| "falsy (Some (JNum n)) = (n = Fin 0 \<or> n = NaN)"
| "falsy (Some (JStr s)) = (s = [])"
| "falsy (Some (JArr xs)) = False"
| "falsy (Some (JObj kvs)) = False"

fun is_number :: "json option \<Rightarrow> bool" where
  "is_number (Some (JNum n)) = True"
| "is_number _ = False"

fun is_string :: "json option \<Rightarrow> bool" where
  "is_string (Some (JStr s)) = True"
| "is_string _ = False"

fun is_array :: "json option \<Rightarrow> bool" where
  "is_array (Some (JArr xs)) = True"
| "is_array _ = False"

text \<open>
  Assigning a property: an existing property keeps its place, a new one goes last. Only
  objects are assigned to below.
\<close>

fun set_prop :: "string \<Rightarrow> json \<Rightarrow> json \<Rightarrow> json" where
  "set_prop k v (JObj kvs) = JObj (AList.update k v kvs)"
| "set_prop k v other = other"

fun string_of :: "json option \<Rightarrow> string" where
  "string_of (Some (JStr s)) = s"
| "string_of _ = []"

subsection \<open>Numbers\<close>

text \<open>
  \<open>Math.round\<close> gives the nearest integer, a tie going towards plus infinity;
  \<open>Math.min\<close> and \<open>Math.max\<close> give \<open>NaN\<close> as soon as one argument is \<open>NaN\<close>.
\<close>

fun Math_round :: "jsnum \<Rightarrow> jsnum" where
  "Math_round (Fin x) = Fin (of_int \<lfloor>x + 1 / 2\<rfloor>)"
| "Math_round n = n"

fun Math_min :: "jsnum \<Rightarrow> jsnum \<Rightarrow> jsnum" where
  "Math_min NaN b = NaN"
| "Math_min a NaN = NaN"
| "Math_min NegInf b = NegInf"
| "Math_min a NegInf = NegInf"
| "Math_min PosInf b = b"
| "Math_min a PosInf = a"
| "Math_min (Fin x) (Fin y) = Fin (min x y)"

fun Math_max :: "jsnum \<Rightarrow> jsnum \<Rightarrow> jsnum" where
  "Math_max NaN b = NaN"
| "Math_max a NaN = NaN"
| "Math_max PosInf b = PosInf"
| "Math_max a PosInf = PosInf"
| "Math_max NegInf b = b"
| "Math_max a NegInf = a"
| "Math_max (Fin x) (Fin y) = Fin (max x y)"

text \<open>
  The conversion of an object or an array to a primitive value throws a \<open>TypeError\<close>
  when no callable \<open>toString\<close> gives one. A parsed object inherits a callable
  \<open>toString\<close> unless it has a property of that name, and that property, a parsed
  value, is never callable. An array joins the strings of its elements, and throws when
  the conversion of an element does.
\<close>

fun ToPrimitive_throws :: "json \<Rightarrow> bool" where
  "ToPrimitive_throws (JObj kvs) = (map_of kvs ''toString'' \<noteq> None)"
| "ToPrimitive_throws (JArr xs) = (\<exists>x \<in> set xs. ToPrimitive_throws x)"
| "ToPrimitive_throws v = False"

text \<open>
  The conversion that \<open>Math.round\<close> applies to its argument; \<open>None\<close> when it
  throws a \<open>TypeError\<close>. A number is itself, \<open>undefined\<close> is \<open>NaN\<close>, \<open>null\<close> is
  0, a boolean is 0 or 1. An object that converts to a string converts to the string of
  its class, which is \<open>NaN\<close> as a number. The number that a string, or the string of an
  array, stands for is given by the runtime's number parser, the parameter \<open>parse\<close>.
\<close>

fun ToNumber :: "(json \<Rightarrow> jsnum) \<Rightarrow> json option \<Rightarrow> jsnum option" where
  "ToNumber parse None = Some NaN"
| "ToNumber parse (Some (JNum n)) = Some n"
| "ToNumber parse (Some JNull) = Some (Fin 0)"
| "ToNumber parse (Some (JBool b)) = Some (Fin (if b then 1 else 0))"
| "ToNumber parse (Some (JStr s)) = Some (parse (JStr s))"
| "ToNumber parse (Some (JObj kvs)) =
     (if ToPrimitive_throws (JObj kvs) then None else Some NaN)"
| "ToNumber parse (Some (JArr xs)) =
     (if ToPrimitive_throws (JArr xs) then None else Some (parse (JArr xs)))"

subsection \<open>Strings\<close>

text \<open>
  Strings are sequences of 8-bit characters, read as Latin-1 where a character is not
  ASCII.
\<close>

definition is_whitespace :: "char \<Rightarrow> bool" where
  "is_whitespace c = (of_char c \<in> {9, 10, 11, 12, 13, 32, 160 :: nat})"

definition trim :: "string \<Rightarrow> string" where
  "trim s = rev (dropWhile is_whitespace (rev (dropWhile is_whitespace s)))"

definition toLowerCase_char :: "char \<Rightarrow> char" where
  "toLowerCase_char c =
     (let n = (of_char c :: nat)
      in if (65 \<le> n \<and> n \<le> 90) \<or> (192 \<le> n \<and> n \<le> 222 \<and> n \<noteq> 215)
         then char_of (n + 32) else c)"

definition toLowerCase :: "string \<Rightarrow> string" where
  "toLowerCase s = map toLowerCase_char s"

definition startsWith :: "string \<Rightarrow> string \<Rightarrow> bool" where
  "startsWith s p = (take (length p) s = p)"

fun String_includes :: "string \<Rightarrow> string \<Rightarrow> bool" where
  "String_includes [] p = (p = [])"
| "String_includes (c # cs) p = (startsWith (c # cs) p \<or> String_includes cs p)"

subsection \<open>Arrays\<close>

text \<open>
  \<open>Array.prototype.sort\<close> with a comparator: a stable sort, here by insertion. The
  element \<open>x\<close> goes before the first \<open>y\<close> with \<open>cmp x y \<le> 0\<close>.
\<close>

fun insert_cmp :: "('a \<Rightarrow> 'a \<Rightarrow> int) \<Rightarrow> 'a \<Rightarrow> 'a list \<Rightarrow> 'a list" where
  "insert_cmp cmp x [] = [x]"
| "insert_cmp cmp x (y # ys) =
     (if cmp x y \<le> 0 then x # y # ys else y # insert_cmp cmp x ys)"

definition Array_sort :: "('a \<Rightarrow> 'a \<Rightarrow> int) \<Rightarrow> 'a list \<Rightarrow> 'a list" where
  "Array_sort cmp xs = foldr (insert_cmp cmp) xs []"

text \<open>
  The tasks of a \<open>Promise.all\<close> run concurrently, and each appends to a shared array
  when its own request settles. With \<open>t i\<close> the time at which the request of task \<open>i\<close>
  settles, the array holds the results in the order of these times.
\<close>

definition in_completion_order :: "(nat \<Rightarrow> nat) \<Rightarrow> 'a list \<Rightarrow> 'a list" where
  "in_completion_order t xs = map snd (sort_key fst (zip (map t [0..<length xs]) xs))"

section \<open>The data model of \<open>lib/github.ts\<close>\<close>

record GitHubUser =
  login :: string
  name :: "string option"
  avatar_url :: string
  bio :: "string option"
  company :: "string option"
  location :: "string option"
  blog :: "string option"
  public_repos :: int
  followers :: int
  following :: int
  created_at :: string

text \<open>
  An entry of the repository listing as the REST client returns it: the fields that
  \<open>fetchGitHubData\<close> reads. The client's type leaves most of them optional. A license
  is an object whose name may be missing.
\<close>

record ApiRepo =
  fork :: bool
  name :: string
  full_name :: string
  description :: "string option"
  html_url :: string
  language :: "string option"
  stargazers_count :: "int option"
  forks_count :: "int option"
  open_issues_count :: "int option"
  topics :: "string list option"
  license :: "string option option"
  updated_at :: "string option"
  created_at :: "string option"

record GitHubRepo =
  name :: string
  full_name :: string
  description :: "string option"
  html_url :: string
  language :: "string option"
  stargazers_count :: int
  forks_count :: int
  open_issues_count :: int
  topics :: "string list"
  has_readme :: bool
  license :: "string option"
  updated_at :: string
  created_at :: string

record CommitActivity =
  repo :: string
  totalCommits :: int
  recentCommits :: int
  lastCommitDate :: "string option"

record CodeQualitySignals =
  repo :: string
  hasCI :: bool
  hasTests :: bool
  hasDocs :: bool
  hasLinting :: bool
  hasGitignore :: bool
  hasContributing :: bool
  hasChangelog :: bool
  hasDotGithub :: bool
  hasEnvExample :: bool
  hasDockerfile :: bool
  fileCount :: int
  directoryStructure :: "string list"

text \<open>\<open>LanguageStats\<close> is an object from language names to bytes, its keys in insertion order.\<close>

type_synonym LanguageStats = "(string \<times> int) list"

record GitHubData =
  user :: GitHubUser
  repos :: "GitHubRepo list"
  topRepoTree :: "string list option"
  topRepoReadme :: "string option"
  commitActivity :: "CommitActivity list"
  codeQuality :: "CodeQualitySignals list"
  languageStats :: LanguageStats
  totalStars :: int
  totalForks :: int
  accountAgeDays :: int

text \<open>A commit of a commit listing: \<open>commit?.committer?.date\<close> is its only field read.\<close>

record Commit =
  committer_date :: "string option"

text \<open>An entry of a recursive tree listing, with its \<open>type\<close> and \<open>path\<close>.\<close>

record TreeItem =
  item_type :: "string option"
  item_path :: "string option"

section \<open>Failures\<close>

text \<open>
  What a rejected request of the REST client or of the completion client carries: an
  HTTP status, or nothing of the kind.
\<close>

datatype rejection = RequestError int | OtherRejection string

fun status :: "rejection \<Rightarrow> int option" where
  "status (RequestError n) = Some n"
| "status (OtherRejection m) = None"

text \<open>
  The values thrown inside the request handler. \<open>GitHubNotFoundError\<close> carries its
  message; \<open>Rejected\<close> is a rejection of a remote call, thrown on unchanged.
\<close>

datatype exn =
    GitHubNotFoundError string
  | Rejected rejection
  | TypeError
  | SyntaxError
  | Error string

definition new_GitHubNotFoundError :: "string \<Rightarrow> exn" where
  "new_GitHubNotFoundError username =
     GitHubNotFoundError (''GitHub user '' @ [CHR 0x22] @ username @ [CHR 0x22] @ '' not found'')"

section \<open>The remote services and the runtime\<close>

text \<open>
  The remote calls of the program. \<open>Repos_listCommits\<close> carries the \<open>since\<close> bound (a
  time in milliseconds, absent in the unfiltered request) and the page size.
\<close>

datatype call =
    Users_getByUsername string
  | Repos_listForUser string
  | Repos_listLanguages string string
  | Repos_getReadme string string
  | Repos_getReadme_raw string string
  | Repos_listCommits string string "int option" nat
  | Repos_get string string
  | Git_getTree string string string
  | Chat_completions_create

text \<open>
  The answers of the remote services. The repository lookup and the tree listing are
  requested twice for the top repository, and the service may answer the second request
  differently: their first argument is 0 in the analysis of each repository and 1 in the
  later look at the top repository. The prompt sent to the completion service is a
  function of the bundle alone, so the service is modelled as answering the bundle; its
  answer is the content of the first choice, if there is any.
\<close>

record Remote =
  users_getByUsername :: "string \<Rightarrow> rejection + GitHubUser"
  repos_listForUser :: "string \<Rightarrow> rejection + ApiRepo list"
  repos_listLanguages :: "string \<Rightarrow> string \<Rightarrow> rejection + (string \<times> int) list"
  repos_getReadme :: "string \<Rightarrow> string \<Rightarrow> rejection + unit"
  repos_getReadme_raw :: "string \<Rightarrow> string \<Rightarrow> rejection + string"
  repos_listCommits :: "string \<Rightarrow> string \<Rightarrow> int option \<Rightarrow> nat \<Rightarrow> rejection + Commit list"
  repos_get :: "nat \<Rightarrow> string \<Rightarrow> string \<Rightarrow> rejection + string"
  git_getTree :: "nat \<Rightarrow> string \<Rightarrow> string \<Rightarrow> string \<Rightarrow> rejection + TreeItem list"
  chat_completions_create :: "GitHubData \<Rightarrow> rejection + string option"

text \<open>The stages at which the concurrent tasks append to a shared structure.\<close>

datatype stage = Languages | Readme | Commits | Tree

text \<open>
  The JavaScript runtime: \<open>JSON.parse\<close> (\<open>None\<close> when it throws), the number parser
  behind \<open>ToNumber\<close>, the clock (one reading for the whole request, in milliseconds),
  the time value of a timestamp, and the time at which the request of task \<open>i\<close> of a
  stage settles.
\<close>

record Runtime =
  JSON_parse :: "string \<Rightarrow> json option"
  Number_parse :: "json \<Rightarrow> jsnum"
  Date_now :: int
  Date_getTime :: "string \<Rightarrow> int"
  settled :: "stage \<Rightarrow> nat \<Rightarrow> nat"

section \<open>Profile Data Client: \<open>fetchGitHubData\<close>\<close>

subsection \<open>Ranking and aggregates\<close>

definition byStars :: "ApiRepo \<Rightarrow> ApiRepo \<Rightarrow> int" where
  "byStars a b = nullish (ApiRepo.stargazers_count b) 0 - nullish (ApiRepo.stargazers_count a) 0"

definition allRepos_of :: "ApiRepo list \<Rightarrow> ApiRepo list" where
  "allRepos_of listed = filter (\<lambda>r. \<not> fork r) listed"

definition sortedRepos_of :: "ApiRepo list \<Rightarrow> ApiRepo list" where
  "sortedRepos_of allRepos = take 6 (Array_sort byStars allRepos)"

definition totalStars_of :: "ApiRepo list \<Rightarrow> int" where
  "totalStars_of allRepos = fold (\<lambda>r sum. sum + nullish (ApiRepo.stargazers_count r) 0) allRepos 0"

definition totalForks_of :: "ApiRepo list \<Rightarrow> int" where
  "totalForks_of allRepos = fold (\<lambda>r sum. sum + nullish (ApiRepo.forks_count r) 0) allRepos 0"

definition accountAgeDays_of :: "Runtime \<Rightarrow> GitHubUser \<Rightarrow> int" where
  "accountAgeDays_of rt u =
     (Date_now rt - Date_getTime rt (GitHubUser.created_at u)) div (1000 * 60 * 60 * 24)"

subsection \<open>Language statistics\<close>

definition addLanguages :: "LanguageStats \<Rightarrow> (string \<times> int) list \<Rightarrow> LanguageStats" where
  "addLanguages stats entries =
     fold (\<lambda>(lang, bytes) st.
             AList.update lang ((case map_of st lang of None \<Rightarrow> 0 | Some b \<Rightarrow> b) + bytes) st)
          entries stats"

definition fetchLanguageStats ::
  "Runtime \<Rightarrow> Remote \<Rightarrow> string \<Rightarrow> ApiRepo list \<Rightarrow> call list \<times> LanguageStats" where
  "fetchLanguageStats rt rm username allRepos =
     (let sample = take 15 allRepos;
          answers = map (\<lambda>r. repos_listLanguages rm username (ApiRepo.name r)) sample
      in (map (\<lambda>r. Repos_listLanguages username (ApiRepo.name r)) sample,
          fold (\<lambda>answer stats.
                  case answer of Inl e \<Rightarrow> stats | Inr entries \<Rightarrow> addLanguages stats entries)
               (in_completion_order (settled rt Languages) answers) []))"

subsection \<open>The task of one ranked repository\<close>

definition probeReadme :: "Remote \<Rightarrow> string \<Rightarrow> ApiRepo \<Rightarrow> bool" where
  "probeReadme rm username r =
     (case repos_getReadme rm username (ApiRepo.name r) of Inl e \<Rightarrow> False | Inr ok \<Rightarrow> True)"

definition toGitHubRepo :: "ApiRepo \<Rightarrow> bool \<Rightarrow> GitHubRepo" where
  "toGitHubRepo r readme =
     \<lparr> name = ApiRepo.name r,
       full_name = ApiRepo.full_name r,
       description = ApiRepo.description r,
       html_url = ApiRepo.html_url r,
       language = ApiRepo.language r,
       stargazers_count = nullish (ApiRepo.stargazers_count r) 0,
       forks_count = nullish (ApiRepo.forks_count r) 0,
       open_issues_count = nullish (ApiRepo.open_issues_count r) 0,
       topics = nullish (ApiRepo.topics r) [],
       has_readme = readme,
       license = (case ApiRepo.license r of
                    None \<Rightarrow> None
                  | Some l \<Rightarrow> Some (nullish l ''Unknown'')),
       updated_at = nullish (ApiRepo.updated_at r) [],
       created_at = nullish (ApiRepo.created_at r) [] \<rparr>"

definition thirtyDaysAgo :: "Runtime \<Rightarrow> int" where
  "thirtyDaysAgo rt = Date_now rt - 30 * 24 * 60 * 60 * 1000"

definition noCommitActivity :: "string \<Rightarrow> CommitActivity" where
  "noCommitActivity nm =
     \<lparr> CommitActivity.repo = nm, totalCommits = 0, recentCommits = 0, lastCommitDate = None \<rparr>"

definition fetchCommitActivity :: "Runtime \<Rightarrow> Remote \<Rightarrow> string \<Rightarrow> string \<Rightarrow> CommitActivity" where
  "fetchCommitActivity rt rm username nm =
     (case repos_listCommits rm username nm None 1 of
        Inl e \<Rightarrow> noCommitActivity nm
      | Inr allCommits \<Rightarrow>
          (case repos_listCommits rm username nm (Some (thirtyDaysAgo rt)) 100 of
             Inl e \<Rightarrow> noCommitActivity nm
           | Inr recent \<Rightarrow>
               \<lparr> CommitActivity.repo = nm,
                 totalCommits = (if length allCommits > 0 then 1 else 0),
                 recentCommits = int (length recent),
                 lastCommitDate = (case allCommits of [] \<Rightarrow> None | c # cs \<Rightarrow> committer_date c) \<rparr>))"

definition paths_of_type :: "string \<Rightarrow> TreeItem list \<Rightarrow> string list" where
  "paths_of_type ty tree =
     filter (\<lambda>p. p \<noteq> [])
       (map (\<lambda>item. nullish (item_path item) []) (filter (\<lambda>item. item_type item = Some ty) tree))"

definition ciPatterns :: "string list" where
  "ciPatterns = [''.github/workflows'', ''.gitlab-ci.yml'', ''Jenkinsfile'', ''.circleci'', ''.travis.yml'']"

definition testPatterns :: "string list" where
  "testPatterns = [''test'', ''tests'', ''__tests__'', ''spec'', ''specs'', ''.test.'', ''.spec.'']"

definition lintPatterns :: "string list" where
  "lintPatterns = [''.eslintrc'', ''.eslintrc.js'', ''.eslintrc.json'', ''eslint.config'',
     ''.prettierrc'', ''.pylintrc'', ''pyproject.toml'', ''.flake8'', ''biome.json'']"

definition docPatterns :: "string list" where
  "docPatterns = [''docs'', ''documentation'', ''doc'']"

definition somePathIncludes :: "string list \<Rightarrow> string list \<Rightarrow> bool" where
  "somePathIncludes patterns allPaths =
     list_ex (\<lambda>p. list_ex (\<lambda>f. String_includes f (toLowerCase p)) allPaths) patterns"

definition analyzeTree :: "string \<Rightarrow> TreeItem list \<Rightarrow> CodeQualitySignals" where
  "analyzeTree nm tree =
     (let files = paths_of_type ''blob'' tree;
          dirs = paths_of_type ''tree'' tree;
          allPaths = map toLowerCase (files @ dirs)
      in \<lparr> CodeQualitySignals.repo = nm,
           hasCI = somePathIncludes ciPatterns allPaths,
           hasTests = somePathIncludes testPatterns allPaths,
           hasDocs = list_ex (\<lambda>p. list_ex (\<lambda>f. startsWith f p) allPaths) docPatterns,
           hasLinting = somePathIncludes lintPatterns allPaths,
           hasGitignore = List.member allPaths ''.gitignore'',
           hasContributing = list_ex (\<lambda>f. String_includes f ''contributing'') allPaths,
           hasChangelog = list_ex (\<lambda>f. String_includes f ''changelog'') allPaths,
           hasDotGithub = list_ex (\<lambda>f. startsWith f ''.github'') allPaths,
           hasEnvExample = list_ex (\<lambda>f. String_includes f ''.env.example''
                                         \<or> String_includes f ''.env.sample'') allPaths,
           hasDockerfile = list_ex (\<lambda>f. String_includes f ''dockerfile'') allPaths,
           fileCount = int (length files),
           directoryStructure = take 15 dirs \<rparr>)"

definition noCodeQuality :: "string \<Rightarrow> CodeQualitySignals" where
  "noCodeQuality nm =
     \<lparr> CodeQualitySignals.repo = nm,
       hasCI = False, hasTests = False, hasDocs = False, hasLinting = False,
       hasGitignore = False, hasContributing = False, hasChangelog = False,
       hasDotGithub = False, hasEnvExample = False, hasDockerfile = False,
       fileCount = 0, directoryStructure = [] \<rparr>"

definition fetchCodeQuality :: "Remote \<Rightarrow> string \<Rightarrow> string \<Rightarrow> call list \<times> CodeQualitySignals" where
  "fetchCodeQuality rm username nm =
     (case repos_get rm 0 username nm of
        Inl e \<Rightarrow> ([Repos_get username nm], noCodeQuality nm)
      | Inr default_branch \<Rightarrow>
          (case git_getTree rm 0 username nm default_branch of
             Inl e \<Rightarrow> ([Repos_get username nm, Git_getTree username nm default_branch],
                       noCodeQuality nm)
           | Inr tree \<Rightarrow> ([Repos_get username nm, Git_getTree username nm default_branch],
                          analyzeTree nm tree)))"

text \<open>The remote calls of the task of one ranked repository.\<close>

definition repoTask_calls :: "Runtime \<Rightarrow> Remote \<Rightarrow> string \<Rightarrow> ApiRepo \<Rightarrow> call list" where
  "repoTask_calls rt rm username r =
     [Repos_getReadme username (ApiRepo.name r),
      Repos_listCommits username (ApiRepo.name r) None 1,
      Repos_listCommits username (ApiRepo.name r) (Some (thirtyDaysAgo rt)) 100]
     @ fst (fetchCodeQuality rm username (ApiRepo.name r))"

subsection \<open>The top repository\<close>

definition moreStars :: "GitHubRepo \<Rightarrow> GitHubRepo \<Rightarrow> int" where
  "moreStars a b = stargazers_count b - stargazers_count a"

definition fetchTopRepoTree ::
  "Remote \<Rightarrow> string \<Rightarrow> GitHubRepo \<Rightarrow> CodeQualitySignals list \<Rightarrow> call list \<times> string list option" where
  "fetchTopRepoTree rm username topRepo quality =
     (case find (\<lambda>q. CodeQualitySignals.repo q = name topRepo) quality of
        None \<Rightarrow> ([], None)
      | Some topQuality \<Rightarrow>
          if length (directoryStructure topQuality) > 0 then
            (case repos_get rm 1 username (name topRepo) of
               Inl e \<Rightarrow> ([Repos_get username (name topRepo)], None)
             | Inr default_branch \<Rightarrow>
                 (case git_getTree rm 1 username (name topRepo) default_branch of
                    Inl e \<Rightarrow> ([Repos_get username (name topRepo),
                                Git_getTree username (name topRepo) default_branch], None)
                  | Inr tree \<Rightarrow> ([Repos_get username (name topRepo),
                                   Git_getTree username (name topRepo) default_branch],
                                  Some (take 50 (paths_of_type ''blob'' tree)))))
          else ([], None))"

text \<open>The answer of the raw README request is its content as a string, already decoded.\<close>

definition fetchTopRepoReadme :: "Remote \<Rightarrow> string \<Rightarrow> GitHubRepo \<Rightarrow> call list \<times> string option" where
  "fetchTopRepoReadme rm username topRepo =
     ([Repos_getReadme_raw username (name topRepo)],
      case repos_getReadme_raw rm username (name topRepo) of
        Inl e \<Rightarrow> None
      | Inr readmeContent \<Rightarrow> Some (take 3000 readmeContent))"

subsection \<open>The whole operation\<close>

text \<open>
  What follows the repository listing. No step of it can throw: each remote call is
  inside a \<open>try\<close> whose \<open>catch\<close> supplies a default. The trace lists the calls issued,
  task by task, without regard to the order in time among concurrent tasks.
\<close>

definition aggregate ::
  "Runtime \<Rightarrow> Remote \<Rightarrow> string \<Rightarrow> GitHubUser \<Rightarrow> ApiRepo list \<Rightarrow> call list \<times> GitHubData" where
  "aggregate rt rm username u listed =
     (let allRepos = allRepos_of listed;
          sortedRepos = sortedRepos_of allRepos;
          langs = fetchLanguageStats rt rm username allRepos;
          pushed = in_completion_order (settled rt Readme)
                     (map (\<lambda>r. toGitHubRepo r (probeReadme rm username r)) sortedRepos);
          activity = in_completion_order (settled rt Commits)
                       (map (\<lambda>r. fetchCommitActivity rt rm username (ApiRepo.name r)) sortedRepos);
          quality = in_completion_order (settled rt Tree)
                      (map (\<lambda>r. snd (fetchCodeQuality rm username (ApiRepo.name r))) sortedRepos);
          ranked = Array_sort moreStars pushed;
          top = (case ranked of
                   [] \<Rightarrow> ([], None, None)
                 | topRepo # rest \<Rightarrow>
                     (let tree = fetchTopRepoTree rm username topRepo quality;
                          readme = fetchTopRepoReadme rm username topRepo
                      in (fst tree @ fst readme, snd tree, snd readme)))
      in (fst langs @ concat (map (repoTask_calls rt rm username) sortedRepos) @ fst top,
          \<lparr> user = u,
            repos = ranked,
            topRepoTree = fst (snd top),
            topRepoReadme = snd (snd top),
            commitActivity = activity,
            codeQuality = quality,
            languageStats = snd langs,
            totalStars = totalStars_of allRepos,
            totalForks = totalForks_of allRepos,
            accountAgeDays = accountAgeDays_of rt u \<rparr>))"

definition fetchGitHubData :: "Runtime \<Rightarrow> Remote \<Rightarrow> string \<Rightarrow> call list \<times> (exn + GitHubData)" where
  "fetchGitHubData rt rm username =
     (case users_getByUsername rm username of
        Inl error \<Rightarrow>
          ([Users_getByUsername username],
           if status error = Some 404 then Inl (new_GitHubNotFoundError username)
           else Inl (Rejected error))
      | Inr u \<Rightarrow>
          (case repos_listForUser rm username of
             Inl error \<Rightarrow>
               ([Users_getByUsername username, Repos_listForUser username], Inl (Rejected error))
           | Inr listed \<Rightarrow>
               (let rest = aggregate rt rm username u listed
                in ([Users_getByUsername username, Repos_listForUser username] @ fst rest,
                    Inr (snd rest)))))"

section \<open>Critique Engine Client: \<open>analyzeWithGroq\<close>\<close>

text \<open>
  The statement \<open>parsed.k = f(parsed.k)\<close>; when the right-hand side throws, nothing
  is assigned.
\<close>

definition assign :: "string \<Rightarrow> (json option \<Rightarrow> exn + json) \<Rightarrow> json \<Rightarrow> exn + json" where
  "assign k f parsed =
     (case f (get_prop parsed k) of
        Inl e \<Rightarrow> Inl e
      | Inr v \<Rightarrow> Inr (set_prop k v parsed))"

text \<open>\<open>Math.max(0, Math.min(hi, Math.round(x)))\<close>, the argument converted to a number.\<close>

definition clamp :: "Runtime \<Rightarrow> real \<Rightarrow> json option \<Rightarrow> exn + json" where
  "clamp rt hi x =
     (case ToNumber (Number_parse rt) x of
        None \<Rightarrow> Inl TypeError
      | Some n \<Rightarrow> Inr (JNum (Math_max (Fin 0) (Math_min (Fin hi) (Math_round n)))))"

text \<open>
  The statements that clamp the scores and supply the defaults, in the source's order;
  the first that throws ends the sequence.
\<close>

definition clampScores :: "Runtime \<Rightarrow> json \<Rightarrow> exn + json" where
  "clampScores rt parsed =
     fold (\<lambda>statement state.
             case state of Inl e \<Rightarrow> Inl e | Inr p \<Rightarrow> statement p)
       [assign ''score'' (\<lambda>x. clamp rt 100 x),
        assign ''readme_score'' (\<lambda>x. clamp rt 10 x),
        assign ''code_quality_score'' (\<lambda>x. clamp rt 10 (Some (nullish_json x (JNum (Fin 5))))),
        assign ''consistency_score'' (\<lambda>x. clamp rt 10 (Some (nullish_json x (JNum (Fin 5))))),
        assign ''diversity_score'' (\<lambda>x. clamp rt 10 (Some (nullish_json x (JNum (Fin 5))))),
        assign ''tech_stack_verdict''
          (\<lambda>x. Inr (nullish_json x (JStr ''No assessment available.''))),
        assign ''commit_verdict''
          (\<lambda>x. Inr (nullish_json x (JStr ''No assessment available.'')))]
       (Inr parsed)"

text \<open>The properties that \<open>clampScores\<close> assigns.\<close>

definition assigned_properties :: "string list" where
  "assigned_properties =
     [''score'', ''readme_score'', ''code_quality_score'', ''consistency_score'',
      ''diversity_score'', ''tech_stack_verdict'', ''commit_verdict'']"

text \<open>
  The validation of the parsed answer. Reading a property of \<open>null\<close> throws a
  \<open>TypeError\<close>; any other value that is not an object has none of the properties.
\<close>

definition validateAnalysis :: "Runtime \<Rightarrow> json \<Rightarrow> exn + json" where
  "validateAnalysis rt parsed =
     (if parsed = JNull then Inl TypeError
      else if \<not> is_number (get_prop parsed ''score'')
            \<or> \<not> is_string (get_prop parsed ''headline'')
            \<or> \<not> is_array (get_prop parsed ''red_flags'')
            \<or> \<not> is_array (get_prop parsed ''green_flags'')
            \<or> \<not> is_number (get_prop parsed ''readme_score'')
            \<or> \<not> is_array (get_prop parsed ''improvement_plan'')
      then Inl (Error ''Groq response did not match expected schema'')
      else clampScores rt parsed)"

definition analyzeWithGroq :: "Runtime \<Rightarrow> Remote \<Rightarrow> GitHubData \<Rightarrow> exn + json" where
  "analyzeWithGroq rt rm data =
     (case chat_completions_create rm data of
        Inl e \<Rightarrow> Inl (Rejected e)
      | Inr content \<Rightarrow>
          (case content of
             None \<Rightarrow> Inl (Error ''Groq returned empty response'')
           | Some text \<Rightarrow>
               if text = [] then Inl (Error ''Groq returned empty response'')
               else (case JSON_parse rt text of
                       None \<Rightarrow> Inl SyntaxError
                     | Some parsed \<Rightarrow> validateAnalysis rt parsed)))"

section \<open>Request Orchestrator: \<open>POST\<close>\<close>

text \<open>The object of a successful response.\<close>

record AnalyzeResult =
  user :: GitHubUser
  repos :: "GitHubRepo list"
  analysis :: json
  commitActivity :: "CommitActivity list"
  codeQuality :: "CodeQualitySignals list"
  languageStats :: LanguageStats
  totalStars :: int
  totalForks :: int
  accountAgeDays :: int

datatype body = ErrorBody string | ResultBody AnalyzeResult

record Response =
  status_code :: nat
  content :: body

definition is_allowed :: "char \<Rightarrow> bool" where
  "is_allowed c =
     (let n = (of_char c :: nat)
      in (97 \<le> n \<and> n \<le> 122) \<or> (65 \<le> n \<and> n \<le> 90) \<or> (48 \<le> n \<and> n \<le> 57) \<or> n = 45)"

definition sanitize :: "string \<Rightarrow> string" where
  "sanitize username = filter is_allowed (trim username)"

definition result_object :: "GitHubData \<Rightarrow> json \<Rightarrow> AnalyzeResult" where
  "result_object githubData result =
     \<lparr> user = GitHubData.user githubData,
       repos = GitHubData.repos githubData,
       analysis = result,
       commitActivity = GitHubData.commitActivity githubData,
       codeQuality = GitHubData.codeQuality githubData,
       languageStats = GitHubData.languageStats githubData,
       totalStars = GitHubData.totalStars githubData,
       totalForks = GitHubData.totalForks githubData,
       accountAgeDays = GitHubData.accountAgeDays githubData \<rparr>"

definition success :: "GitHubData \<Rightarrow> json \<Rightarrow> Response" where
  "success githubData result =
     \<lparr> status_code = 200, content = ResultBody (result_object githubData result) \<rparr>"

text \<open>
  The \<open>try\<close> block. The request body is \<open>None\<close> when \<open>request.json()\<close> rejects;
  destructuring \<open>null\<close> throws a \<open>TypeError\<close>.
\<close>

definition try_block :: "Runtime \<Rightarrow> Remote \<Rightarrow> json option \<Rightarrow> call list \<times> (exn + Response)" where
  "try_block rt rm request_json =
     (case request_json of
        None \<Rightarrow> ([], Inl SyntaxError)
      | Some body \<Rightarrow>
          if body = JNull then ([], Inl TypeError)
          else
            (let username = get_prop body ''username''
             in if falsy username \<or> \<not> is_string username
                then ([], Inr \<lparr> status_code = 400, content = ErrorBody ''Username is required'' \<rparr>)
                else
                  (let sanitizedUsername = sanitize (string_of username)
                   in if sanitizedUsername = []
                      then ([], Inr \<lparr> status_code = 400,
                                      content = ErrorBody ''Invalid username format'' \<rparr>)
                      else
                        (case fetchGitHubData rt rm sanitizedUsername of
                           (calls, Inl e) \<Rightarrow> (calls, Inl e)
                         | (calls, Inr githubData) \<Rightarrow>
                             (case analyzeWithGroq rt rm githubData of
                                Inl e \<Rightarrow> (calls @ [Chat_completions_create], Inl e)
                              | Inr result \<Rightarrow>
                                  (calls @ [Chat_completions_create],
                                   Inr (success githubData result)))))))"

text \<open>The \<open>catch\<close> block. The logging of the error is not modelled.\<close>

fun catch_block :: "exn \<Rightarrow> Response" where
  "catch_block (GitHubNotFoundError message) = \<lparr> status_code = 404, content = ErrorBody message \<rparr>"
| "catch_block error =
     \<lparr> status_code = 500, content = ErrorBody ''Failed to analyze profile. Please try again.'' \<rparr>"

definition POST :: "Runtime \<Rightarrow> Remote \<Rightarrow> json option \<Rightarrow> call list \<times> Response" where
  "POST rt rm request_json =
     (case try_block rt rm request_json of
        (calls, Inl error) \<Rightarrow> (calls, catch_block error)
      | (calls, Inr response) \<Rightarrow> (calls, response))"

section \<open>A profile with eight repositories of its own\<close>

text \<open>
  The concrete inputs at which the theorems below are instantiated. The listing holds
  eight repositories of the user (one without a star count) and one fork; the requests
  settle in the reverse of the order in which they were issued.
\<close>

definition demo_user :: GitHubUser where
  "demo_user =
     \<lparr> login = ''octocat'', GitHubUser.name = Some ''The Octocat'', avatar_url = ''https://example.org/a.png'',
       bio = None, company = None, location = None, blog = None,
       public_repos = 9, followers = 3, following = 1,
       GitHubUser.created_at = ''2011-01-25T18:44:36Z'' \<rparr>"

definition demo_repo :: "string \<Rightarrow> int option \<Rightarrow> int option \<Rightarrow> bool \<Rightarrow> ApiRepo" where
  "demo_repo nm stars forks is_fork =
     \<lparr> fork = is_fork, ApiRepo.name = nm, ApiRepo.full_name = ''octocat/'' @ nm,
       ApiRepo.description = None, ApiRepo.html_url = ''https://example.org/'' @ nm,
       ApiRepo.language = None, ApiRepo.stargazers_count = stars, ApiRepo.forks_count = forks,
       ApiRepo.open_issues_count = None, ApiRepo.topics = None, ApiRepo.license = None,
       ApiRepo.updated_at = None, ApiRepo.created_at = None \<rparr>"

definition demo_listing :: "ApiRepo list" where
  "demo_listing =
     [demo_repo ''alpha'' (Some 1) (Some 2) False,
      demo_repo ''beta'' (Some 5) (Some 1) False,
      demo_repo ''gamma'' None None False,
      demo_repo ''delta'' (Some 3) (Some 0) False,
      demo_repo ''mirror'' (Some 100) (Some 40) True,
      demo_repo ''epsilon'' (Some 2) (Some 0) False,
      demo_repo ''zeta'' (Some 7) (Some 3) False,
      demo_repo ''eta'' (Some 4) (Some 0) False,
      demo_repo ''theta'' (Some 6) (Some 1) False]"

definition demo_tree :: "TreeItem list" where
  "demo_tree =
     [\<lparr> item_type = Some ''blob'', item_path = Some ''README.md'' \<rparr>,
      \<lparr> item_type = Some ''tree'', item_path = Some ''src'' \<rparr>,
      \<lparr> item_type = Some ''blob'', item_path = Some ''src/main.ts'' \<rparr>]"

definition demo_remote :: Remote where
  "demo_remote =
     \<lparr> users_getByUsername =
         (\<lambda>username. if username = ''octocat'' then Inr demo_user else Inl (RequestError 404)),
       repos_listForUser = (\<lambda>username. Inr demo_listing),
       repos_listLanguages =
         (\<lambda>owner nm. if nm = ''zeta'' then Inr [(''TypeScript'', 2048)] else Inl (RequestError 403)),
       repos_getReadme = (\<lambda>owner nm. if nm = ''zeta'' then Inr () else Inl (RequestError 404)),
       repos_getReadme_raw =
         (\<lambda>owner nm. if nm = ''zeta'' then Inr ''# zeta'' else Inl (RequestError 404)),
       repos_listCommits =
         (\<lambda>owner nm since per_page.
            if nm = ''zeta''
            then Inr (take per_page [\<lparr> committer_date = Some ''2024-05-01T00:00:00Z'' \<rparr>])
            else if nm = ''theta'' then Inl (RequestError 409)
            else Inr []),
       repos_get = (\<lambda>attempt owner nm. if nm = ''theta'' then Inl (RequestError 500) else Inr ''main''),
       git_getTree =
         (\<lambda>attempt owner nm sha. if nm = ''zeta'' then Inr demo_tree
            else if nm = ''beta'' then Inl (RequestError 409)
            else Inr []),
       chat_completions_create = (\<lambda>data. Inr (Some ''critique'')) \<rparr>"

definition demo_critique :: json where
  "demo_critique =
     JObj [(''score'', JNum (Fin 72.4)),
           (''headline'', JStr ''Solid Engineer, Zero DevOps''),
           (''red_flags'', JArr [JStr ''no CI'']),
           (''green_flags'', JArr []),
           (''readme_score'', JNum (Fin 13.7)),
           (''improvement_plan'', JArr [JStr ''add tests'']),
           (''diversity_score'', JNum (Fin (-3))),
           (''confidence'', JStr ''high'')]"

text \<open>The critique above after the clamping and the defaults.\<close>

definition demo_analysis :: json where
  "demo_analysis =
     JObj [(''score'', JNum (Fin 72)),
           (''headline'', JStr ''Solid Engineer, Zero DevOps''),
           (''red_flags'', JArr [JStr ''no CI'']),
           (''green_flags'', JArr []),
           (''readme_score'', JNum (Fin 10)),
           (''improvement_plan'', JArr [JStr ''add tests'']),
           (''diversity_score'', JNum (Fin 0)),
           (''confidence'', JStr ''high''),
           (''code_quality_score'', JNum (Fin 5)),
           (''consistency_score'', JNum (Fin 5)),
           (''tech_stack_verdict'', JStr ''No assessment available.''),
           (''commit_verdict'', JStr ''No assessment available.'')]"

definition demo_runtime :: Runtime where
  "demo_runtime =
     \<lparr> JSON_parse = (\<lambda>text. if text = ''critique'' then Some demo_critique else None),
       Number_parse = (\<lambda>v. NaN),
       Date_now = 1700000000000,
       Date_getTime = (\<lambda>timestamp. 1295981076000),
       settled = (\<lambda>stage i. 10 - i) \<rparr>"

definition demo_request :: json where
  "demo_request = JObj [(''username'', JStr '' octo cat! '')]"

definition demo_bundle :: GitHubData where
  "demo_bundle = snd (aggregate demo_runtime demo_remote ''octocat'' demo_user demo_listing)"

text \<open>
  The same user with a single repository, whose tree holds a directory; and with a
  single repository whose tree holds two files and no directory.
\<close>

definition solo_listing :: "ApiRepo list" where
  "solo_listing = [demo_repo ''zeta'' (Some 7) (Some 3) False]"

definition solo_remote :: Remote where
  "solo_remote = demo_remote \<lparr> repos_listForUser := (\<lambda>username. Inr solo_listing) \<rparr>"

definition solo_bundle :: GitHubData where
  "solo_bundle = snd (aggregate demo_runtime solo_remote ''octocat'' demo_user solo_listing)"

definition flat_tree :: "TreeItem list" where
  "flat_tree =
     [\<lparr> item_type = Some ''blob'', item_path = Some ''README.md'' \<rparr>,
      \<lparr> item_type = Some ''blob'', item_path = Some ''main.py'' \<rparr>]"

definition flat_remote :: Remote where
  "flat_remote = solo_remote \<lparr> git_getTree := (\<lambda>attempt owner nm sha. Inr flat_tree) \<rparr>"

definition flat_bundle :: GitHubData where
  "flat_bundle = snd (aggregate demo_runtime flat_remote ''octocat'' demo_user solo_listing)"

text \<open>
  An answer of the completion service that has every required field, and an object where
  the code-quality score should be.
\<close>

definition odd_critique :: json where
  "odd_critique =
     JObj [(''score'', JNum (Fin 50)),
           (''headline'', JStr ''Polyglot Builder, Needs More Tests''),
           (''red_flags'', JArr []),
           (''green_flags'', JArr []),
           (''readme_score'', JNum (Fin 5)),
           (''improvement_plan'', JArr []),
           (''code_quality_score'', JObj [(''value'', JNum (Fin 7))])]"

text \<open>What the validation returns for it.\<close>

definition odd_result :: json where
  "odd_result =
     JObj [(''score'', JNum (Fin 50)),
           (''headline'', JStr ''Polyglot Builder, Needs More Tests''),
           (''red_flags'', JArr []),
           (''green_flags'', JArr []),
           (''readme_score'', JNum (Fin 5)),
           (''improvement_plan'', JArr []),
           (''code_quality_score'', JNum NaN),
           (''consistency_score'', JNum (Fin 5)),
           (''diversity_score'', JNum (Fin 5)),
           (''tech_stack_verdict'', JStr ''No assessment available.''),
           (''commit_verdict'', JStr ''No assessment available.'')]"

text \<open>
  The user with the single repository, and a service that answers every commit listing
  with 150 commits, whatever the page size asked for.
\<close>

definition chatty_remote :: Remote where
  "chatty_remote =
     solo_remote \<lparr> repos_listCommits :=
                     (\<lambda>owner nm since per_page.
                        Inr (replicate 150 \<lparr> committer_date = Some ''2024-05-01T00:00:00Z'' \<rparr>)) \<rparr>"

definition chatty_bundle :: GitHubData where
  "chatty_bundle = snd (aggregate demo_runtime chatty_remote ''octocat'' demo_user solo_listing)"



section \<open>Properties of the Profile Data Client and of the orchestrator\<close>

subsection \<open>Sorting and completion order\<close>

lemma insert_cmp_insort_key:
  "insert_cmp (\<lambda>a b. f b - f a) x ys = insort_key (\<lambda>x. - f x) x ys" for f :: "'a \<Rightarrow> int"
  by (induction ys) auto

lemma Array_sort_sort_key:
  "Array_sort (\<lambda>a b. f b - f a) xs = sort_key (\<lambda>x. - f x) xs" for f :: "'a \<Rightarrow> int"
  by (induction xs) (simp_all add: Array_sort_def sort_key_def insert_cmp_insort_key)

lemma sorted_wrt_Array_sort:
  "sorted_wrt (\<lambda>a b. f b \<le> f a) (Array_sort (\<lambda>a b. f b - f a) xs)" for f :: "'a \<Rightarrow> int"
proof -
  have "sorted (map (\<lambda>x. - f x) (sort_key (\<lambda>x. - f x) xs))"
    by (rule sorted_sort_key)
  then show ?thesis
    by (simp add: Array_sort_sort_key sorted_map)
qed

lemma mset_Array_sort:
  "mset (Array_sort (\<lambda>a b. f b - f a) xs) = mset xs" for f :: "'a \<Rightarrow> int"
  by (simp add: Array_sort_sort_key)

lemma mset_in_completion_order: "mset (in_completion_order t xs) = mset xs"
proof -
  let ?zs = "zip (map t [0..<length xs]) xs"
  have "mset (map snd (sort_key fst ?zs)) = image_mset snd (mset (sort_key fst ?zs))"
    by (simp only: mset_map)
  also have "\<dots> = image_mset snd (mset ?zs)"
    by simp
  also have "\<dots> = mset (map snd ?zs)"
    by (simp only: mset_map)
  also have "map snd ?zs = xs"
    by (simp add: map_snd_zip)
  finally show ?thesis
    by (simp only: in_completion_order_def)
qed

lemma set_in_completion_order: "set (in_completion_order t xs) = set xs"
  by (metis mset_in_completion_order set_mset_mset)

lemma length_in_completion_order: "length (in_completion_order t xs) = length xs"
  by (metis mset_in_completion_order size_mset)

lemma length_Array_sort: "length (Array_sort (\<lambda>a b. f b - f a) xs) = length xs" for f :: "'a \<Rightarrow> int"
  by (simp add: Array_sort_sort_key)

lemma byStars_key: "byStars = (\<lambda>a b. nullish (ApiRepo.stargazers_count b) 0 - nullish (ApiRepo.stargazers_count a) 0)"
  by (simp add: byStars_def fun_eq_iff)

lemma moreStars_key: "moreStars = (\<lambda>a b. stargazers_count b - stargazers_count a)"
  by (simp add: moreStars_def fun_eq_iff)

lemma length_sortedRepos_of: "length (sortedRepos_of xs) \<le> 6"
  by (simp add: sortedRepos_of_def)

lemma sorted_sortedRepos_of:
  "sorted_wrt (\<lambda>a b. nullish (ApiRepo.stargazers_count b) 0 \<le> nullish (ApiRepo.stargazers_count a) 0)
     (sortedRepos_of xs)"
  unfolding sortedRepos_of_def byStars_key
  by (rule sorted_wrt_take) (rule sorted_wrt_Array_sort)

subsection \<open>The shape of a successful fetch and of a successful response\<close>

lemma fetch_Inr:
  "snd (fetchGitHubData rt rm username) = Inr d \<longleftrightarrow>
     (\<exists>u listed. users_getByUsername rm username = Inr u
        \<and> repos_listForUser rm username = Inr listed
        \<and> d = snd (aggregate rt rm username u listed))"
  by (auto simp: fetchGitHubData_def Let_def split: sum.splits)

lemma repos_aggregate:
  "GitHubData.repos (snd (aggregate rt rm username u listed)) =
     Array_sort moreStars (in_completion_order (settled rt Readme)
       (map (\<lambda>r. toGitHubRepo r (probeReadme rm username r)) (sortedRepos_of (allRepos_of listed))))"
  by (simp add: aggregate_def Let_def)

lemma commitActivity_aggregate:
  "GitHubData.commitActivity (snd (aggregate rt rm username u listed)) =
     in_completion_order (settled rt Commits)
       (map (\<lambda>r. fetchCommitActivity rt rm username (ApiRepo.name r)) (sortedRepos_of (allRepos_of listed)))"
  by (simp add: aggregate_def Let_def)

lemma codeQuality_aggregate:
  "GitHubData.codeQuality (snd (aggregate rt rm username u listed)) =
     in_completion_order (settled rt Tree)
       (map (\<lambda>r. snd (fetchCodeQuality rm username (ApiRepo.name r))) (sortedRepos_of (allRepos_of listed)))"
  by (simp add: aggregate_def Let_def)

lemma totals_aggregate:
  "GitHubData.totalStars (snd (aggregate rt rm username u listed)) = totalStars_of (allRepos_of listed)"
  "GitHubData.totalForks (snd (aggregate rt rm username u listed)) = totalForks_of (allRepos_of listed)"
  by (simp_all add: aggregate_def Let_def)

lemma fold_plus_sum_list: "fold (\<lambda>r sum. sum + f r) xs (a::int) = a + sum_list (map f xs)"
  by (induction xs arbitrary: a) simp_all

lemma catch_block_no_result: "content (catch_block e) \<noteq> ResultBody res"
  by (cases e) simp_all

lemma POST_success:
  assumes "content (snd (POST rt rm request_json)) = ResultBody res"
  shows "\<exists>body d a. request_json = Some body
           \<and> snd (fetchGitHubData rt rm (sanitize (string_of (get_prop body ''username'')))) = Inr d
           \<and> analyzeWithGroq rt rm d = Inr a
           \<and> snd (POST rt rm request_json) = success d a"
  using assms
  by (auto simp: POST_def try_block_def Let_def catch_block_no_result
           split: option.splits if_splits prod.splits sum.splits)

text \<open>
  Claim C1. Whenever the endpoint answers with a result, the ranked repository list of the
  result has at most six entries and is in descending order of stars, whatever the order
  in which the concurrent tasks pushed their entries; and the ranked working set chosen
  before the tasks start (\<open>sortedRepos\<close>) has the same two properties for every
  listing.
\<close>

theorem ranked_repos_bounded_and_sorted:
  assumes "content (snd (POST rt rm request_json)) = ResultBody res"
  shows "length (repos res) \<le> 6
       \<and> sorted_wrt (\<lambda>a b. stargazers_count b \<le> stargazers_count a) (repos res)
       \<and> (\<forall>listed. length (sortedRepos_of (allRepos_of listed)) \<le> 6
             \<and> sorted_wrt (\<lambda>a b. nullish (ApiRepo.stargazers_count b) 0
                                    \<le> nullish (ApiRepo.stargazers_count a) 0)
                  (sortedRepos_of (allRepos_of listed)))"
proof -
  from POST_success [OF assms] obtain body d a where
    fetch: "snd (fetchGitHubData rt rm (sanitize (string_of (get_prop body ''username'')))) = Inr d"
    and post: "snd (POST rt rm request_json) = success d a"
    by blast
  from assms post have res: "repos res = GitHubData.repos d"
    by (auto simp: success_def result_object_def)
  from fetch obtain u listed where
    d: "d = snd (aggregate rt rm (sanitize (string_of (get_prop body ''username''))) u listed)"
    by (auto simp: fetch_Inr)
  have len: "length (repos res) \<le> 6"
    unfolding res d repos_aggregate moreStars_key
    by (simp add: length_Array_sort length_in_completion_order length_sortedRepos_of)
  have srt: "sorted_wrt (\<lambda>a b. stargazers_count b \<le> stargazers_count a) (repos res)"
    unfolding res d repos_aggregate moreStars_key
    by (rule sorted_wrt_Array_sort)
  show ?thesis
    using len srt length_sortedRepos_of sorted_sortedRepos_of by blast
qed

text \<open>
  Claim C6. The totals of a successful fetch are the sums of the star and fork counts
  over all the listed repositories that are not forks, not over the ranked six.
\<close>

theorem totals_over_all_non_forks:
  assumes "snd (fetchGitHubData rt rm username) = Inr d"
    and "repos_listForUser rm username = Inr listed"
  shows "GitHubData.totalStars d
           = sum_list (map (\<lambda>r. nullish (ApiRepo.stargazers_count r) 0) (filter (\<lambda>r. \<not> fork r) listed))
       \<and> GitHubData.totalForks d
           = sum_list (map (\<lambda>r. nullish (ApiRepo.forks_count r) 0) (filter (\<lambda>r. \<not> fork r) listed))"
  using assms
  by (auto simp: fetch_Inr totals_aggregate totalStars_of_def totalForks_of_def
                 allRepos_of_def fold_plus_sum_list)

text \<open>
  Claim C10. A request whose body is not valid JSON gets the generic response with status
  500 and the message that suggests a retry, not the response with status 400: the body
  is parsed inside the \<open>try\<close> block whose \<open>catch\<close> maps unclassified failures.
\<close>

theorem invalid_json_body_is_server_error:
  "POST rt rm None =
     ([], \<lparr> status_code = 500, content = ErrorBody ''Failed to analyze profile. Please try again.'' \<rparr>)
   \<and> status_code (snd (POST rt rm None)) \<noteq> 400"
  by (simp add: POST_def try_block_def)

subsection \<open>Commit activity\<close>

lemma fetchCommitActivity_total: "totalCommits (fetchCommitActivity rt rm username nm) \<in> {0, 1}"
  by (simp add: fetchCommitActivity_def noCommitActivity_def split: sum.splits)

lemma fetchCommitActivity_recent:
  assumes "\<forall>owner nm since n cs. repos_listCommits rm owner nm since n = Inr cs \<longrightarrow> length cs \<le> n"
  shows "recentCommits (fetchCommitActivity rt rm username nm) \<le> 100"
proof (cases "repos_listCommits rm username nm (Some (thirtyDaysAgo rt)) 100")
  case (Inl e)
  then show ?thesis
    by (simp add: fetchCommitActivity_def noCommitActivity_def split: sum.splits)
next
  case (Inr recent)
  with assms have "length recent \<le> 100" by blast
  with Inr show ?thesis
    by (simp add: fetchCommitActivity_def noCommitActivity_def split: sum.splits)
qed

lemma repo_fetchCommitActivity:
  "CommitActivity.repo (fetchCommitActivity rt rm username nm) = nm"
  by (simp add: fetchCommitActivity_def noCommitActivity_def split: sum.splits)

lemma fetchCommitActivity_listed:
  assumes "repos_listCommits rm username nm None 1 = Inr latest"
    and "repos_listCommits rm username nm (Some (thirtyDaysAgo rt)) 100 = Inr recent"
  shows "totalCommits (fetchCommitActivity rt rm username nm) = (if latest = [] then 0 else 1)
       \<and> recentCommits (fetchCommitActivity rt rm username nm) = int (length recent)"
  using assms by (simp add: fetchCommitActivity_def)

lemma fetchCommitActivity_rejected:
  assumes "isl (repos_listCommits rm username nm None 1)
         \<or> isl (repos_listCommits rm username nm (Some (thirtyDaysAgo rt)) 100)"
  shows "totalCommits (fetchCommitActivity rt rm username nm) = 0
       \<and> recentCommits (fetchCommitActivity rt rm username nm) = 0"
  using assms
  by (auto simp: fetchCommitActivity_def noCommitActivity_def isl_def split: sum.splits)

text \<open>
  Claim C9, amended. In every commit-activity record of a successful fetch,
  \<open>totalCommits\<close> is 0 or 1: it is 1 exactly when both commit listings of the repository
  are answered and the unfiltered one is not empty. \<open>recentCommits\<close> is the number of
  entries that the listing of the last 30 days returned, and 0 when either listing is
  rejected; nothing caps it, so it is at most 100 when the service returns no more
  entries than the page size asked for.
\<close>

theorem commit_activity_bounds:
  assumes "snd (fetchGitHubData rt rm username) = Inr d"
    and "c \<in> set (GitHubData.commitActivity d)"
  shows "(totalCommits c = 0 \<or> totalCommits c = 1)
       \<and> (\<forall>latest recent.
             repos_listCommits rm username (CommitActivity.repo c) None 1 = Inr latest
           \<and> repos_listCommits rm username (CommitActivity.repo c) (Some (thirtyDaysAgo rt)) 100
               = Inr recent
           \<longrightarrow> totalCommits c = (if latest = [] then 0 else 1)
             \<and> recentCommits c = int (length recent))
       \<and> (isl (repos_listCommits rm username (CommitActivity.repo c) None 1)
           \<or> isl (repos_listCommits rm username (CommitActivity.repo c)
                    (Some (thirtyDaysAgo rt)) 100)
           \<longrightarrow> totalCommits c = 0 \<and> recentCommits c = 0)
       \<and> ((\<forall>owner nm since n cs.
              repos_listCommits rm owner nm since n = Inr cs \<longrightarrow> length cs \<le> n)
            \<longrightarrow> recentCommits c \<le> 100)"
proof -
  from assms(1) obtain u listed where
    d: "d = snd (aggregate rt rm username u listed)"
    by (auto simp: fetch_Inr)
  from assms(2) have "c \<in> (\<lambda>r. fetchCommitActivity rt rm username (ApiRepo.name r))
                           ` set (sortedRepos_of (allRepos_of listed))"
    unfolding d commitActivity_aggregate set_in_completion_order by simp
  then obtain r :: ApiRepo where "c = fetchCommitActivity rt rm username (ApiRepo.name r)"
    by blast
  then have c: "c = fetchCommitActivity rt rm username (CommitActivity.repo c)"
    by (simp add: repo_fetchCommitActivity)
  let ?nm = "CommitActivity.repo c"
  have total: "totalCommits c = 0 \<or> totalCommits c = 1"
    using fetchCommitActivity_total [of rt rm username ?nm] c by simp
  have listed: "\<forall>latest recent.
             repos_listCommits rm username ?nm None 1 = Inr latest
           \<and> repos_listCommits rm username ?nm (Some (thirtyDaysAgo rt)) 100 = Inr recent
           \<longrightarrow> totalCommits c = (if latest = [] then 0 else 1)
             \<and> recentCommits c = int (length recent)"
    using fetchCommitActivity_listed [of rm username ?nm _ rt] c by metis
  have rejected: "isl (repos_listCommits rm username ?nm None 1)
           \<or> isl (repos_listCommits rm username ?nm (Some (thirtyDaysAgo rt)) 100)
           \<longrightarrow> totalCommits c = 0 \<and> recentCommits c = 0"
    using fetchCommitActivity_rejected [of rm username ?nm rt] c by metis
  have paged: "(\<forall>owner nm since n cs.
              repos_listCommits rm owner nm since n = Inr cs \<longrightarrow> length cs \<le> n)
            \<longrightarrow> recentCommits c \<le> 100"
    using fetchCommitActivity_recent [of rm rt username ?nm] c by metis
  from total listed rejected paged show ?thesis
    by blast
qed

subsection \<open>Validation of the identifier\<close>

lemma filter_dropWhile_disjoint:
  assumes "\<And>c. Q c \<Longrightarrow> \<not> P c"
  shows "filter P (dropWhile Q s) = filter P s"
  using assms by (induction s) auto

lemma whitespace_not_allowed: "is_whitespace c \<Longrightarrow> \<not> is_allowed c"
  by (auto simp: is_whitespace_def is_allowed_def Let_def)

lemma filter_rev_swap: "filter P (rev xs) = rev (filter P xs)"
  by (simp add: rev_filter)

lemma sanitize_filter: "sanitize s = filter is_allowed s"
proof -
  have "filter is_allowed (trim s)
          = rev (filter is_allowed (dropWhile is_whitespace (rev (dropWhile is_whitespace s))))"
    by (simp only: trim_def filter_rev_swap)
  also have "\<dots> = rev (filter is_allowed (rev (dropWhile is_whitespace s)))"
    by (simp only: filter_dropWhile_disjoint [OF whitespace_not_allowed])
  also have "\<dots> = filter is_allowed (dropWhile is_whitespace s)"
    by (simp only: filter_rev_swap rev_rev_ident)
  also have "\<dots> = filter is_allowed s"
    by (simp only: filter_dropWhile_disjoint [OF whitespace_not_allowed])
  finally show ?thesis
    by (simp only: sanitize_def)
qed

lemma fst_fetch_nonempty:
  "\<exists>cs. fst (fetchGitHubData rt rm username) = Users_getByUsername username # cs"
  by (simp add: fetchGitHubData_def Let_def split: sum.splits)

lemma status_code_catch_block: "status_code (catch_block e) \<noteq> 400"
  by (cases e) simp_all

lemma is_string_string_of: "is_string v \<Longrightarrow> v = Some (JStr (string_of v))"
  by (cases v rule: is_string.cases) simp_all

text \<open>
  Claim C7, amended. For a request body that is valid JSON other than \<open>null\<close>, the
  endpoint answers with status 400 exactly when the \<open>username\<close> property is missing,
  is not a string, or is empty after sanitizing; it then issues no remote call. Otherwise
  the first remote call is the profile lookup of the sanitized identifier. Sanitizing
  keeps exactly the letters, digits and hyphens of the identifier.
\<close>

theorem identifier_validation:
  assumes "body \<noteq> JNull"
  shows "(status_code (snd (POST rt rm (Some body))) = 400
            \<longleftrightarrow> (get_prop body ''username'' = None
                 \<or> \<not> is_string (get_prop body ''username'')
                 \<or> sanitize (string_of (get_prop body ''username'')) = []))
       \<and> (status_code (snd (POST rt rm (Some body))) = 400 \<longrightarrow> fst (POST rt rm (Some body)) = [])
       \<and> (status_code (snd (POST rt rm (Some body))) \<noteq> 400 \<longrightarrow>
            (\<exists>cs. fst (POST rt rm (Some body))
                    = Users_getByUsername (sanitize (string_of (get_prop body ''username''))) # cs))
       \<and> (\<forall>s. sanitize s = filter is_allowed s \<and> (\<forall>c \<in> set (sanitize s). is_allowed c))"
proof -
  let ?u = "get_prop body ''username''"
  let ?s = "sanitize (string_of ?u)"
  have falsy_str: "is_string ?u \<Longrightarrow> falsy ?u \<Longrightarrow> ?s = []"
    by (cases ?u rule: is_string.cases) (simp_all add: sanitize_def trim_def)
  consider (bad) "\<not> is_string ?u \<or> ?s = []" | (good) "is_string ?u" "?s \<noteq> []"
    by blast
  then have main: "(status_code (snd (POST rt rm (Some body))) = 400
            \<longleftrightarrow> (?u = None \<or> \<not> is_string ?u \<or> ?s = []))
       \<and> (status_code (snd (POST rt rm (Some body))) = 400 \<longrightarrow> fst (POST rt rm (Some body)) = [])
       \<and> (status_code (snd (POST rt rm (Some body))) \<noteq> 400 \<longrightarrow>
            (\<exists>cs. fst (POST rt rm (Some body)) = Users_getByUsername ?s # cs))"
  proof cases
    case bad
    then have "POST rt rm (Some body) =
        ([], \<lparr> status_code = 400, content = ErrorBody ''Username is required'' \<rparr>)
      \<or> POST rt rm (Some body) =
        ([], \<lparr> status_code = 400, content = ErrorBody ''Invalid username format'' \<rparr>)"
      using assms falsy_str by (auto simp: POST_def try_block_def Let_def)
    with bad show ?thesis by auto
  next
    case good
    then have nf: "\<not> falsy ?u"
      using falsy_str by blast
    obtain cs where cs: "fst (fetchGitHubData rt rm ?s) = Users_getByUsername ?s # cs"
      using fst_fetch_nonempty by blast
    have st: "status_code (snd (POST rt rm (Some body))) \<noteq> 400"
      using assms good nf
      by (auto simp: POST_def try_block_def Let_def success_def status_code_catch_block
               split: prod.splits sum.splits)
    have "\<exists>cs'. fst (POST rt rm (Some body)) = Users_getByUsername ?s # cs'"
      using assms good nf cs
      by (auto simp: POST_def try_block_def Let_def split: prod.splits sum.splits)
    with st good show ?thesis
      using is_string_string_of [of ?u] by auto
  qed
  have "\<forall>s. sanitize s = filter is_allowed s \<and> (\<forall>c \<in> set (sanitize s). is_allowed c)"
    by (simp add: sanitize_filter)
  with main show ?thesis by blast
qed









subsection \<open>Quality signals\<close>

lemma repo_fetchCodeQuality: "CodeQualitySignals.repo (snd (fetchCodeQuality rm username nm)) = nm"
  by (simp add: fetchCodeQuality_def noCodeQuality_def analyzeTree_def Let_def split: sum.splits)

lemma fetchCodeQuality_failed:
  assumes "isl (repos_get rm 0 username nm)
         \<or> (\<exists>b. repos_get rm 0 username nm = Inr b \<and> isl (git_getTree rm 0 username nm b))"
  shows "snd (fetchCodeQuality rm username nm) = noCodeQuality nm"
  using assms by (auto simp: fetchCodeQuality_def isl_def split: sum.splits)

lemma set_repos_aggregate:
  "set (GitHubData.repos (snd (aggregate rt rm username u listed)))
     = (\<lambda>r. toGitHubRepo r (probeReadme rm username r)) ` set (sortedRepos_of (allRepos_of listed))"
proof -
  have "mset (GitHubData.repos (snd (aggregate rt rm username u listed)))
          = mset (map (\<lambda>r. toGitHubRepo r (probeReadme rm username r))
                    (sortedRepos_of (allRepos_of listed)))"
    unfolding repos_aggregate moreStars_key
    by (simp only: mset_Array_sort mset_in_completion_order)
  then have "set (GitHubData.repos (snd (aggregate rt rm username u listed)))
          = set (map (\<lambda>r. toGitHubRepo r (probeReadme rm username r))
                    (sortedRepos_of (allRepos_of listed)))"
    by (rule mset_eq_setD)
  then show ?thesis by simp
qed

lemma set_codeQuality_aggregate:
  "set (GitHubData.codeQuality (snd (aggregate rt rm username u listed)))
     = (\<lambda>r. snd (fetchCodeQuality rm username (ApiRepo.name r)))
         ` set (sortedRepos_of (allRepos_of listed))"
  by (simp add: codeQuality_aggregate set_in_completion_order)

lemma name_toGitHubRepo: "name (toGitHubRepo r b) = ApiRepo.name r"
  by (simp add: toGitHubRepo_def)

text \<open>
  Claim C5. When the profile and the repository listing are fetched, the fetch succeeds;
  and for every ranked repository whose tree fetch fails (the repository lookup or the
  tree listing is rejected), there is a quality record for it, and every quality record
  for it has all flags false, file count 0 and an empty directory listing.
\<close>

theorem failed_tree_fetch_gives_placeholder:
  assumes "users_getByUsername rm username = Inr u"
    and "repos_listForUser rm username = Inr listed"
  shows "\<exists>d. snd (fetchGitHubData rt rm username) = Inr d
       \<and> (\<forall>g \<in> set (GitHubData.repos d).
            (isl (repos_get rm 0 username (name g))
              \<or> (\<exists>b. repos_get rm 0 username (name g) = Inr b
                     \<and> isl (git_getTree rm 0 username (name g) b)))
            \<longrightarrow> (\<exists>q \<in> set (GitHubData.codeQuality d). CodeQualitySignals.repo q = name g)
              \<and> (\<forall>q \<in> set (GitHubData.codeQuality d). CodeQualitySignals.repo q = name g \<longrightarrow>
                    \<not> hasCI q \<and> \<not> hasTests q \<and> \<not> hasDocs q \<and> \<not> hasLinting q
                  \<and> \<not> hasGitignore q \<and> \<not> hasContributing q \<and> \<not> hasChangelog q
                  \<and> \<not> hasDotGithub q \<and> \<not> hasEnvExample q \<and> \<not> hasDockerfile q
                  \<and> fileCount q = 0 \<and> directoryStructure q = []))"
proof -
  let ?d = "snd (aggregate rt rm username u listed)"
  let ?ranked = "sortedRepos_of (allRepos_of listed)"
  have fetch: "snd (fetchGitHubData rt rm username) = Inr ?d"
    using assms by (simp add: fetch_Inr)
  have placeholder: "\<not> hasCI q \<and> \<not> hasTests q \<and> \<not> hasDocs q \<and> \<not> hasLinting q
                  \<and> \<not> hasGitignore q \<and> \<not> hasContributing q \<and> \<not> hasChangelog q
                  \<and> \<not> hasDotGithub q \<and> \<not> hasEnvExample q \<and> \<not> hasDockerfile q
                  \<and> fileCount q = 0 \<and> directoryStructure q = []"
    if "q = noCodeQuality nm" for q nm
    using that by (simp add: noCodeQuality_def)
  have "(\<exists>q \<in> set (GitHubData.codeQuality ?d). CodeQualitySignals.repo q = name g)
      \<and> (\<forall>q \<in> set (GitHubData.codeQuality ?d). CodeQualitySignals.repo q = name g \<longrightarrow>
                    \<not> hasCI q \<and> \<not> hasTests q \<and> \<not> hasDocs q \<and> \<not> hasLinting q
                  \<and> \<not> hasGitignore q \<and> \<not> hasContributing q \<and> \<not> hasChangelog q
                  \<and> \<not> hasDotGithub q \<and> \<not> hasEnvExample q \<and> \<not> hasDockerfile q
                  \<and> fileCount q = 0 \<and> directoryStructure q = [])"
    if g: "g \<in> set (GitHubData.repos ?d)"
      and failed: "isl (repos_get rm 0 username (name g))
              \<or> (\<exists>b. repos_get rm 0 username (name g) = Inr b
                     \<and> isl (git_getTree rm 0 username (name g) b))"
    for g
  proof
    from g obtain r :: ApiRepo where r: "r \<in> set ?ranked" and nm: "name g = ApiRepo.name r"
      unfolding set_repos_aggregate by (auto simp: name_toGitHubRepo)
    from r have "snd (fetchCodeQuality rm username (ApiRepo.name r)) \<in> set (GitHubData.codeQuality ?d)"
      unfolding set_codeQuality_aggregate by blast
    then show "\<exists>q \<in> set (GitHubData.codeQuality ?d). CodeQualitySignals.repo q = name g"
      using nm repo_fetchCodeQuality by metis
    show "\<forall>q \<in> set (GitHubData.codeQuality ?d). CodeQualitySignals.repo q = name g \<longrightarrow>
                    \<not> hasCI q \<and> \<not> hasTests q \<and> \<not> hasDocs q \<and> \<not> hasLinting q
                  \<and> \<not> hasGitignore q \<and> \<not> hasContributing q \<and> \<not> hasChangelog q
                  \<and> \<not> hasDotGithub q \<and> \<not> hasEnvExample q \<and> \<not> hasDockerfile q
                  \<and> fileCount q = 0 \<and> directoryStructure q = []"
    proof (intro ballI impI)
      fix q assume q: "q \<in> set (GitHubData.codeQuality ?d)" and same: "CodeQualitySignals.repo q = name g"
      from q obtain r' :: ApiRepo where q': "q = snd (fetchCodeQuality rm username (ApiRepo.name r'))"
        unfolding set_codeQuality_aggregate by blast
      with same have "ApiRepo.name r' = name g"
        by (simp add: repo_fetchCodeQuality)
      with q' failed have "q = noCodeQuality (name g)"
        by (simp add: fetchCodeQuality_failed)
      then show "\<not> hasCI q \<and> \<not> hasTests q \<and> \<not> hasDocs q \<and> \<not> hasLinting q
                  \<and> \<not> hasGitignore q \<and> \<not> hasContributing q \<and> \<not> hasChangelog q
                  \<and> \<not> hasDotGithub q \<and> \<not> hasEnvExample q \<and> \<not> hasDockerfile q
                  \<and> fileCount q = 0 \<and> directoryStructure q = []"
        by (rule placeholder)
    qed
  qed
  with fetch show ?thesis by blast
qed

section \<open>The critique and the response\<close>

subsection \<open>The statements of \<open>clampScores\<close>\<close>

lemma assign_object:
  "assign k f (JObj kvs) =
     (case f (map_of kvs k) of Inl e \<Rightarrow> Inl e | Inr v \<Rightarrow> Inr (JObj (AList.update k v kvs)))"
  by (simp add: assign_def split: sum.splits)

lemma assign_Inr:
  assumes "assign k f (JObj kvs) = Inr q"
  shows "\<exists>v. f (map_of kvs k) = Inr v \<and> q = JObj (AList.update k v kvs)"
  using assms by (auto simp: assign_object split: sum.splits)

lemma clampScores_steps:
  assumes "clampScores rt p = Inr a"
  shows "\<exists>p1 p2 p3 p4 p5 p6.
           assign ''score'' (\<lambda>x. clamp rt 100 x) p = Inr p1
         \<and> assign ''readme_score'' (\<lambda>x. clamp rt 10 x) p1 = Inr p2
         \<and> assign ''code_quality_score''
               (\<lambda>x. clamp rt 10 (Some (nullish_json x (JNum (Fin 5))))) p2 = Inr p3
         \<and> assign ''consistency_score''
               (\<lambda>x. clamp rt 10 (Some (nullish_json x (JNum (Fin 5))))) p3 = Inr p4
         \<and> assign ''diversity_score''
               (\<lambda>x. clamp rt 10 (Some (nullish_json x (JNum (Fin 5))))) p4 = Inr p5
         \<and> assign ''tech_stack_verdict''
               (\<lambda>x. Inr (nullish_json x (JStr ''No assessment available.''))) p5 = Inr p6
         \<and> assign ''commit_verdict''
               (\<lambda>x. Inr (nullish_json x (JStr ''No assessment available.''))) p6 = Inr a"
  using assms by (simp add: clampScores_def split: sum.splits)

text \<open>
  When no statement throws, the result is the parsed object with the seven properties
  assigned, each from the value the parsed object holds under it.
\<close>

lemma clampScores_Inr:
  assumes "clampScores rt (JObj kvs) = Inr a"
  shows "\<exists>v1 v2 v3 v4 v5.
           clamp rt 100 (map_of kvs ''score'') = Inr v1
         \<and> clamp rt 10 (map_of kvs ''readme_score'') = Inr v2
         \<and> clamp rt 10 (Some (nullish_json (map_of kvs ''code_quality_score'') (JNum (Fin 5)))) = Inr v3
         \<and> clamp rt 10 (Some (nullish_json (map_of kvs ''consistency_score'') (JNum (Fin 5)))) = Inr v4
         \<and> clamp rt 10 (Some (nullish_json (map_of kvs ''diversity_score'') (JNum (Fin 5)))) = Inr v5
         \<and> a = JObj
               (AList.update ''commit_verdict''
                  (nullish_json (map_of kvs ''commit_verdict'') (JStr ''No assessment available.''))
               (AList.update ''tech_stack_verdict''
                  (nullish_json (map_of kvs ''tech_stack_verdict'') (JStr ''No assessment available.''))
               (AList.update ''diversity_score'' v5
               (AList.update ''consistency_score'' v4
               (AList.update ''code_quality_score'' v3
               (AList.update ''readme_score'' v2
               (AList.update ''score'' v1 kvs)))))))"
proof -
  from clampScores_steps [OF assms] obtain p1 p2 p3 p4 p5 p6 where
    s1: "assign ''score'' (\<lambda>x. clamp rt 100 x) (JObj kvs) = Inr p1"
    and s2: "assign ''readme_score'' (\<lambda>x. clamp rt 10 x) p1 = Inr p2"
    and s3: "assign ''code_quality_score''
               (\<lambda>x. clamp rt 10 (Some (nullish_json x (JNum (Fin 5))))) p2 = Inr p3"
    and s4: "assign ''consistency_score''
               (\<lambda>x. clamp rt 10 (Some (nullish_json x (JNum (Fin 5))))) p3 = Inr p4"
    and s5: "assign ''diversity_score''
               (\<lambda>x. clamp rt 10 (Some (nullish_json x (JNum (Fin 5))))) p4 = Inr p5"
    and s6: "assign ''tech_stack_verdict''
               (\<lambda>x. Inr (nullish_json x (JStr ''No assessment available.''))) p5 = Inr p6"
    and s7: "assign ''commit_verdict''
               (\<lambda>x. Inr (nullish_json x (JStr ''No assessment available.''))) p6 = Inr a"
    by blast
  from assign_Inr [OF s1] obtain v1 where
    v1: "clamp rt 100 (map_of kvs ''score'') = Inr v1"
    and p1: "p1 = JObj (AList.update ''score'' v1 kvs)"
    by blast
  from assign_Inr [OF s2 [unfolded p1]] obtain v2 where
    v2: "clamp rt 10 (map_of kvs ''readme_score'') = Inr v2"
    and p2: "p2 = JObj (AList.update ''readme_score'' v2 (AList.update ''score'' v1 kvs))"
    by (auto simp: update_conv')
  from assign_Inr [OF s3 [unfolded p2]] obtain v3 where
    v3: "clamp rt 10 (Some (nullish_json (map_of kvs ''code_quality_score'') (JNum (Fin 5)))) = Inr v3"
    and p3: "p3 = JObj (AList.update ''code_quality_score'' v3
                    (AList.update ''readme_score'' v2 (AList.update ''score'' v1 kvs)))"
    by (auto simp: update_conv')
  from assign_Inr [OF s4 [unfolded p3]] obtain v4 where
    v4: "clamp rt 10 (Some (nullish_json (map_of kvs ''consistency_score'') (JNum (Fin 5)))) = Inr v4"
    and p4: "p4 = JObj (AList.update ''consistency_score'' v4
                    (AList.update ''code_quality_score'' v3
                    (AList.update ''readme_score'' v2 (AList.update ''score'' v1 kvs))))"
    by (auto simp: update_conv')
  from assign_Inr [OF s5 [unfolded p4]] obtain v5 where
    v5: "clamp rt 10 (Some (nullish_json (map_of kvs ''diversity_score'') (JNum (Fin 5)))) = Inr v5"
    and p5: "p5 = JObj (AList.update ''diversity_score'' v5
                    (AList.update ''consistency_score'' v4
                    (AList.update ''code_quality_score'' v3
                    (AList.update ''readme_score'' v2 (AList.update ''score'' v1 kvs)))))"
    by (auto simp: update_conv')
  from assign_Inr [OF s6 [unfolded p5]] have
    p6: "p6 = JObj (AList.update ''tech_stack_verdict''
                  (nullish_json (map_of kvs ''tech_stack_verdict'') (JStr ''No assessment available.''))
                    (AList.update ''diversity_score'' v5
                    (AList.update ''consistency_score'' v4
                    (AList.update ''code_quality_score'' v3
                    (AList.update ''readme_score'' v2 (AList.update ''score'' v1 kvs))))))"
    by (auto simp: update_conv')
  from assign_Inr [OF s7 [unfolded p6]] have
    "a = JObj (AList.update ''commit_verdict''
                  (nullish_json (map_of kvs ''commit_verdict'') (JStr ''No assessment available.''))
               (AList.update ''tech_stack_verdict''
                  (nullish_json (map_of kvs ''tech_stack_verdict'') (JStr ''No assessment available.''))
                    (AList.update ''diversity_score'' v5
                    (AList.update ''consistency_score'' v4
                    (AList.update ''code_quality_score'' v3
                    (AList.update ''readme_score'' v2 (AList.update ''score'' v1 kvs)))))))"
    by (auto simp: update_conv')
  with v1 v2 v3 v4 v5 show ?thesis
    by blast
qed


lemma validateAnalysis_Inr:
  assumes "validateAnalysis rt parsed = Inr a"
  shows "\<exists>kvs. parsed = JObj kvs \<and> clampScores rt (JObj kvs) = Inr a"
proof -
  from assms have "is_number (get_prop parsed ''score'')" and a: "clampScores rt parsed = Inr a"
    by (simp_all add: validateAnalysis_def split: if_splits)
  then obtain kvs where "parsed = JObj kvs"
    by (cases parsed) simp_all
  with a show ?thesis by blast
qed

lemma clampScores_other_keys:
  assumes "clampScores rt (JObj kvs) = Inr a" and "k \<notin> set assigned_properties"
  shows "get_prop a k = get_prop (JObj kvs) k"
proof -
  from clampScores_Inr [OF assms(1)] obtain v1 v2 v3 v4 v5 w1 w2 where
    "a = JObj (AList.update ''commit_verdict'' w2
              (AList.update ''tech_stack_verdict'' w1
              (AList.update ''diversity_score'' v5
              (AList.update ''consistency_score'' v4
              (AList.update ''code_quality_score'' v3
              (AList.update ''readme_score'' v2
              (AList.update ''score'' v1 kvs)))))))"
    by blast
  with assms(2) show ?thesis
    by (simp add: assigned_properties_def update_conv')
qed

lemma nullish_json_present: "v \<noteq> JNull \<Longrightarrow> nullish_json (Some v) d = v"
  by (cases v) simp_all

lemma clampScores_verdicts:
  assumes "clampScores rt (JObj kvs) = Inr a"
  shows "get_prop a ''tech_stack_verdict''
           = Some (nullish_json (map_of kvs ''tech_stack_verdict'')
                     (JStr ''No assessment available.''))"
    and "get_prop a ''commit_verdict''
           = Some (nullish_json (map_of kvs ''commit_verdict'')
                     (JStr ''No assessment available.''))"
proof -
  from clampScores_Inr [OF assms] obtain v1 v2 v3 v4 v5 where
    a: "a = JObj (AList.update ''commit_verdict''
                  (nullish_json (map_of kvs ''commit_verdict'') (JStr ''No assessment available.''))
              (AList.update ''tech_stack_verdict''
                  (nullish_json (map_of kvs ''tech_stack_verdict'') (JStr ''No assessment available.''))
              (AList.update ''diversity_score'' v5
              (AList.update ''consistency_score'' v4
              (AList.update ''code_quality_score'' v3
              (AList.update ''readme_score'' v2
              (AList.update ''score'' v1 kvs)))))))"
    by blast
  show "get_prop a ''tech_stack_verdict''
           = Some (nullish_json (map_of kvs ''tech_stack_verdict'')
                     (JStr ''No assessment available.''))"
    unfolding a by (simp add: update_conv')
  show "get_prop a ''commit_verdict''
           = Some (nullish_json (map_of kvs ''commit_verdict'')
                     (JStr ''No assessment available.''))"
    unfolding a by (simp add: update_conv')
qed

lemma clampScores_tech_stack_verdict:
  assumes "clampScores rt (JObj kvs) = Inr a"
    and "map_of kvs ''tech_stack_verdict'' = Some v" and "v \<noteq> JNull"
  shows "get_prop a ''tech_stack_verdict'' = Some v"
  by (simp add: clampScores_verdicts [OF assms(1)] assms(2,3) nullish_json_present)

lemma clampScores_commit_verdict:
  assumes "clampScores rt (JObj kvs) = Inr a"
    and "map_of kvs ''commit_verdict'' = Some v" and "v \<noteq> JNull"
  shows "get_prop a ''commit_verdict'' = Some v"
  by (simp add: clampScores_verdicts [OF assms(1)] assms(2,3) nullish_json_present)

subsection \<open>The response\<close>

lemma analyzeWithGroq_Inr:
  assumes "analyzeWithGroq rt rm d = Inr a"
  shows "\<exists>reply parsed. chat_completions_create rm d = Inr (Some reply)
           \<and> JSON_parse rt reply = Some parsed \<and> validateAnalysis rt parsed = Inr a"
  using assms
  by (auto simp: analyzeWithGroq_def split: sum.splits option.splits if_splits)

lemma result_object_ignores_top:
  "result_object (d\<lparr>topRepoTree := tree, topRepoReadme := readme\<rparr>) a = result_object d a"
  by (simp add: result_object_def)

text \<open>
  Claim C2, amended. Whenever the endpoint answers with a result, the result holds the
  bundle's user, repositories, commit activity, quality signals, language statistics,
  totals and account age unchanged, and under \<open>analysis\<close> the parsed critique, each
  property of it unchanged other than the five scores and the two verdicts, a verdict
  that is present and not \<open>null\<close> being unchanged too. The file listing and the README
  excerpt of the top repository are not part of the result: a bundle with any other
  listing and excerpt gives the same result.
\<close>

theorem response_carries_bundle_and_critique:
  assumes "content (snd (POST rt rm request_json)) = ResultBody res"
  shows "\<exists>body d reply parsed.
           request_json = Some body
         \<and> snd (fetchGitHubData rt rm (sanitize (string_of (get_prop body ''username'')))) = Inr d
         \<and> chat_completions_create rm d = Inr (Some reply)
         \<and> JSON_parse rt reply = Some parsed
         \<and> user res = GitHubData.user d
         \<and> repos res = GitHubData.repos d
         \<and> commitActivity res = GitHubData.commitActivity d
         \<and> codeQuality res = GitHubData.codeQuality d
         \<and> languageStats res = GitHubData.languageStats d
         \<and> totalStars res = GitHubData.totalStars d
         \<and> totalForks res = GitHubData.totalForks d
         \<and> accountAgeDays res = GitHubData.accountAgeDays d
         \<and> (\<forall>k. k \<notin> set assigned_properties
                \<longrightarrow> get_prop (analysis res) k = get_prop parsed k)
         \<and> (\<forall>v. get_prop parsed ''tech_stack_verdict'' = Some v \<and> v \<noteq> JNull
                \<longrightarrow> get_prop (analysis res) ''tech_stack_verdict'' = Some v)
         \<and> (\<forall>v. get_prop parsed ''commit_verdict'' = Some v \<and> v \<noteq> JNull
                \<longrightarrow> get_prop (analysis res) ''commit_verdict'' = Some v)
         \<and> (\<forall>tree readme.
              result_object (d\<lparr>topRepoTree := tree, topRepoReadme := readme\<rparr>) (analysis res) = res)"
proof -
  from POST_success [OF assms] obtain body d a where
    req: "request_json = Some body"
    and fetch: "snd (fetchGitHubData rt rm (sanitize (string_of (get_prop body ''username'')))) = Inr d"
    and groq: "analyzeWithGroq rt rm d = Inr a"
    and post: "snd (POST rt rm request_json) = success d a"
    by blast
  from assms post have res: "res = result_object d a"
    by (simp add: success_def)
  from analyzeWithGroq_Inr [OF groq] obtain reply parsed where
    chat: "chat_completions_create rm d = Inr (Some reply)"
    and parse: "JSON_parse rt reply = Some parsed"
    and valid: "validateAnalysis rt parsed = Inr a"
    by blast
  from validateAnalysis_Inr [OF valid] obtain kvs where
    parsed: "parsed = JObj kvs" and a: "clampScores rt (JObj kvs) = Inr a"
    by blast
  have an: "analysis res = a"
    by (simp add: res result_object_def)
  have fields: "user res = GitHubData.user d \<and> repos res = GitHubData.repos d
         \<and> commitActivity res = GitHubData.commitActivity d
         \<and> codeQuality res = GitHubData.codeQuality d
         \<and> languageStats res = GitHubData.languageStats d
         \<and> totalStars res = GitHubData.totalStars d
         \<and> totalForks res = GitHubData.totalForks d
         \<and> accountAgeDays res = GitHubData.accountAgeDays d"
    by (simp add: res result_object_def)
  have others: "\<forall>k. k \<notin> set assigned_properties
                \<longrightarrow> get_prop (analysis res) k = get_prop parsed k"
  proof (intro allI impI)
    fix k :: string
    assume k: "k \<notin> set assigned_properties"
    show "get_prop (analysis res) k = get_prop parsed k"
      unfolding an parsed by (rule clampScores_other_keys [OF a k])
  qed
  have tech: "\<forall>v. get_prop parsed ''tech_stack_verdict'' = Some v \<and> v \<noteq> JNull
                \<longrightarrow> get_prop (analysis res) ''tech_stack_verdict'' = Some v"
    unfolding an parsed by (simp add: clampScores_tech_stack_verdict [OF a])
  have commit: "\<forall>v. get_prop parsed ''commit_verdict'' = Some v \<and> v \<noteq> JNull
                \<longrightarrow> get_prop (analysis res) ''commit_verdict'' = Some v"
    unfolding an parsed by (simp add: clampScores_commit_verdict [OF a])
  have top: "\<forall>tree readme.
              result_object (d\<lparr>topRepoTree := tree, topRepoReadme := readme\<rparr>) (analysis res) = res"
    by (simp add: result_object_ignores_top res result_object_def)
  from req fetch chat parse fields others tech commit top show ?thesis
    by blast
qed

text \<open>
  Claim C3, at an input where it fails. The answer \<open>odd_critique\<close> passes the validation
  of the required fields; its code-quality score is an object, and the critique returned
  holds \<open>NaN\<close> in its place, not an integer between 0 and 10.
\<close>

theorem non_numeric_score_becomes_NaN:
  "validateAnalysis rt odd_critique = Inr odd_result
   \<and> get_prop odd_critique ''code_quality_score'' = Some (JObj [(''value'', JNum (Fin 7))])
   \<and> get_prop odd_result ''code_quality_score'' = Some (JNum NaN)"
proof -
  have "clampScores rt odd_critique = Inr odd_result"
    by (simp add: clampScores_def assign_object clamp_def odd_critique_def odd_result_def)
  then show ?thesis
    by (simp add: validateAnalysis_def odd_critique_def odd_result_def)
qed

subsection \<open>Scores that are numbers\<close>

text \<open>
  A score that is a number other than \<open>NaN\<close> is clamped to an integer within its bounds;
  13.7 on the scale to 10 becomes 10. An object with a property \<open>toString\<close> makes the
  clamping throw.
\<close>

lemma clamp_of_number:
  assumes "n \<noteq> NaN" and "0 \<le> hi"
  shows "\<exists>m::int. 0 \<le> m \<and> m \<le> hi
           \<and> clamp rt (of_int hi) (Some (JNum n)) = Inr (JNum (Fin (of_int m)))"
proof (cases n)
  case (Fin x)
  let ?m = "max 0 (min hi \<lfloor>x + 1 / 2\<rfloor>)"
  have "clamp rt (of_int hi) (Some (JNum n)) = Inr (JNum (Fin (of_int ?m)))"
    by (simp add: clamp_def Fin)
  moreover have "0 \<le> ?m \<and> ?m \<le> hi"
    using assms(2) by simp
  ultimately show ?thesis by blast
next
  case PosInf
  then have "clamp rt (of_int hi) (Some (JNum n)) = Inr (JNum (Fin (of_int hi)))"
    using assms(2) by (simp add: clamp_def max_def)
  with assms(2) show ?thesis by blast
next
  case NegInf
  then have "clamp rt (of_int hi) (Some (JNum n)) = Inr (JNum (Fin (of_int 0)))"
    by (simp add: clamp_def)
  with assms(2) show ?thesis by blast
next
  case NaN
  with assms(1) show ?thesis by simp
qed

lemma clamp_13_7: "clamp rt 10 (Some (JNum (Fin 13.7))) = Inr (JNum (Fin 10))"
  by (simp add: clamp_def)

lemma clamp_default: "clamp rt 10 (Some (JNum (Fin 5))) = Inr (JNum (Fin 5))"
  by (simp add: clamp_def)

lemma clamp_own_toString:
  assumes "map_of kvs ''toString'' = Some t"
  shows "clamp rt hi (Some (JObj kvs)) = Inl TypeError"
  using assms by (simp add: clamp_def)

text \<open>
  What a validated critique holds under each assigned property, in terms of \<open>clamp\<close>
  and of the defaults.
\<close>

lemma validated_critique:
  assumes "validateAnalysis rt parsed = Inr a"
  shows "\<exists>v. clamp rt 100 (get_prop parsed ''score'') = Inr v \<and> get_prop a ''score'' = Some v"
    and "\<exists>v. clamp rt 10 (get_prop parsed ''readme_score'') = Inr v
            \<and> get_prop a ''readme_score'' = Some v"
    and "\<exists>v. clamp rt 10 (Some (nullish_json (get_prop parsed ''code_quality_score'')
                                   (JNum (Fin 5)))) = Inr v
            \<and> get_prop a ''code_quality_score'' = Some v"
    and "\<exists>v. clamp rt 10 (Some (nullish_json (get_prop parsed ''consistency_score'')
                                   (JNum (Fin 5)))) = Inr v
            \<and> get_prop a ''consistency_score'' = Some v"
    and "\<exists>v. clamp rt 10 (Some (nullish_json (get_prop parsed ''diversity_score'')
                                   (JNum (Fin 5)))) = Inr v
            \<and> get_prop a ''diversity_score'' = Some v"
    and "get_prop a ''tech_stack_verdict''
           = Some (nullish_json (get_prop parsed ''tech_stack_verdict'')
                     (JStr ''No assessment available.''))"
    and "get_prop a ''commit_verdict''
           = Some (nullish_json (get_prop parsed ''commit_verdict'')
                     (JStr ''No assessment available.''))"
proof -
  from validateAnalysis_Inr [OF assms] obtain kvs where
    parsed: "parsed = JObj kvs" and cs: "clampScores rt (JObj kvs) = Inr a"
    by blast
  from clampScores_Inr [OF cs] obtain v1 v2 v3 v4 v5 w1 w2 where
    v1: "clamp rt 100 (map_of kvs ''score'') = Inr v1"
    and v2: "clamp rt 10 (map_of kvs ''readme_score'') = Inr v2"
    and v3: "clamp rt 10 (Some (nullish_json (map_of kvs ''code_quality_score'') (JNum (Fin 5))))
               = Inr v3"
    and v4: "clamp rt 10 (Some (nullish_json (map_of kvs ''consistency_score'') (JNum (Fin 5))))
               = Inr v4"
    and v5: "clamp rt 10 (Some (nullish_json (map_of kvs ''diversity_score'') (JNum (Fin 5))))
               = Inr v5"
    and a: "a = JObj (AList.update ''commit_verdict'' w2
              (AList.update ''tech_stack_verdict'' w1
              (AList.update ''diversity_score'' v5
              (AList.update ''consistency_score'' v4
              (AList.update ''code_quality_score'' v3
              (AList.update ''readme_score'' v2
              (AList.update ''score'' v1 kvs)))))))"
    by blast
  show "\<exists>v. clamp rt 100 (get_prop parsed ''score'') = Inr v \<and> get_prop a ''score'' = Some v"
    unfolding parsed a using v1 by (simp add: update_conv')
  show "\<exists>v. clamp rt 10 (get_prop parsed ''readme_score'') = Inr v
            \<and> get_prop a ''readme_score'' = Some v"
    unfolding parsed a using v2 by (simp add: update_conv')
  show "\<exists>v. clamp rt 10 (Some (nullish_json (get_prop parsed ''code_quality_score'')
                                   (JNum (Fin 5)))) = Inr v
            \<and> get_prop a ''code_quality_score'' = Some v"
    unfolding parsed a using v3 by (simp add: update_conv')
  show "\<exists>v. clamp rt 10 (Some (nullish_json (get_prop parsed ''consistency_score'')
                                   (JNum (Fin 5)))) = Inr v
            \<and> get_prop a ''consistency_score'' = Some v"
    unfolding parsed a using v4 by (simp add: update_conv')
  show "\<exists>v. clamp rt 10 (Some (nullish_json (get_prop parsed ''diversity_score'')
                                   (JNum (Fin 5)))) = Inr v
            \<and> get_prop a ''diversity_score'' = Some v"
    unfolding parsed a using v5 by (simp add: update_conv')
  show "get_prop a ''tech_stack_verdict''
           = Some (nullish_json (get_prop parsed ''tech_stack_verdict'')
                     (JStr ''No assessment available.''))"
    unfolding parsed using clampScores_verdicts(1) [OF cs] by simp
  show "get_prop a ''commit_verdict''
           = Some (nullish_json (get_prop parsed ''commit_verdict'')
                     (JStr ''No assessment available.''))"
    unfolding parsed using clampScores_verdicts(2) [OF cs] by simp
qed

subsection \<open>The excerpts of the top repository\<close>

text \<open>The file listing has at most 50 entries and the README excerpt at most 3000 characters.\<close>

lemma topRepoTree_bound:
  assumes "snd (fetchTopRepoTree rm username topRepo quality) = Some t"
  shows "length t \<le> 50"
  using assms
  by (auto simp: fetchTopRepoTree_def split: option.splits if_splits sum.splits)

lemma topRepoReadme_bound:
  assumes "snd (fetchTopRepoReadme rm username topRepo) = Some s"
  shows "length s \<le> 3000"
  using assms
  by (auto simp: fetchTopRepoReadme_def split: sum.splits)

lemma top_repo_excerpts_bounded:
  assumes "snd (fetchGitHubData rt rm username) = Inr d"
  shows "(\<forall>t. GitHubData.topRepoTree d = Some t \<longrightarrow> length t \<le> 50)
       \<and> (\<forall>s. GitHubData.topRepoReadme d = Some s \<longrightarrow> length s \<le> 3000)"
proof -
  from assms obtain u listed where d: "d = snd (aggregate rt rm username u listed)"
    by (auto simp: fetch_Inr)
  show ?thesis
    unfolding d
    by (auto simp: aggregate_def Let_def split: list.splits
             dest: topRepoTree_bound topRepoReadme_bound)
qed

section \<open>The theorems at the concrete profile\<close>

lemma POST_proceeds:
  assumes "get_prop body ''username'' = Some (JStr s)" and "sanitize s \<noteq> []"
    and "snd (fetchGitHubData rt rm (sanitize s)) = Inr d"
    and "analyzeWithGroq rt rm d = Inr a"
  shows "snd (POST rt rm (Some body)) = success d a"
proof -
  from assms(2) have "s \<noteq> []" by (auto simp: sanitize_def trim_def)
  moreover from assms(1) have "body \<noteq> JNull" by auto
  ultimately show ?thesis
    using assms by (auto simp: POST_def try_block_def Let_def split: prod.splits sum.splits)
qed

lemma demo_sanitize: "sanitize '' octo cat! '' = ''octocat''"
  by (simp add: sanitize_filter is_allowed_def)

lemma demo_fetch: "snd (fetchGitHubData demo_runtime demo_remote ''octocat'') = Inr demo_bundle"
  by (simp add: fetch_Inr demo_remote_def demo_bundle_def)

lemma demo_validated: "validateAnalysis demo_runtime demo_critique = Inr demo_analysis"
proof -
  have "clampScores demo_runtime demo_critique = Inr demo_analysis"
    by (simp add: clampScores_def assign_object clamp_def demo_critique_def demo_analysis_def)
  then show ?thesis
    by (simp add: validateAnalysis_def demo_critique_def)
qed

lemma demo_runtime_parse: "JSON_parse demo_runtime ''critique'' = Some demo_critique"
  by (simp add: demo_runtime_def)

lemma demo_groq:
  "analyzeWithGroq demo_runtime demo_remote d = Inr demo_analysis"
  by (simp add: analyzeWithGroq_def demo_remote_def demo_runtime_parse demo_validated)

lemma demo_POST:
  "snd (POST demo_runtime demo_remote (Some demo_request))
     = success demo_bundle demo_analysis"
  by (rule POST_proceeds [where s = "'' octo cat! ''"])
     (simp_all add: demo_request_def demo_sanitize demo_fetch demo_groq)

text \<open>
  Claim C1 at the concrete profile: the response for the profile with eight repositories lists at most six repositories, in descending order of stars.
\<close>

theorem ranked_repos_bounded_and_sorted_witness:
  "content (snd (POST demo_runtime demo_remote (Some demo_request)))
     = ResultBody (result_object demo_bundle demo_analysis)
   \<and> length (repos (result_object demo_bundle demo_analysis)) \<le> 6
   \<and> sorted_wrt (\<lambda>a b. stargazers_count b \<le> stargazers_count a)
        (repos (result_object demo_bundle demo_analysis))"
proof -
  have h: "content (snd (POST demo_runtime demo_remote (Some demo_request)))
     = ResultBody (result_object demo_bundle demo_analysis)"
    by (simp add: demo_POST success_def)
  from ranked_repos_bounded_and_sorted [OF h] h show ?thesis
    by blast
qed

text \<open>
  Claim C6 at the concrete profile: the eight repositories that are not forks have 28 stars and 7 forks in total, and the totals are these, while the ranked six have 27 stars.
\<close>

theorem totals_over_all_non_forks_witness:
  "snd (fetchGitHubData demo_runtime demo_remote ''octocat'') = Inr demo_bundle
   \<and> repos_listForUser demo_remote ''octocat'' = Inr demo_listing
   \<and> GitHubData.totalStars demo_bundle = 28
   \<and> GitHubData.totalForks demo_bundle = 7
   \<and> sum_list (map (\<lambda>r. nullish (ApiRepo.stargazers_count r) 0)
                 (sortedRepos_of (allRepos_of demo_listing))) = 27"
proof -
  have h2: "repos_listForUser demo_remote ''octocat'' = Inr demo_listing"
    by (simp add: demo_remote_def)
  have top: "sum_list (map (\<lambda>r. nullish (ApiRepo.stargazers_count r) 0)
                 (sortedRepos_of (allRepos_of demo_listing))) = 27"
    by code_simp
  from totals_over_all_non_forks [OF demo_fetch h2] demo_fetch h2 top show ?thesis
    by (simp add: demo_listing_def demo_repo_def)
qed

text \<open>
  Claim C7 as stated fails for the body \<open>null\<close>: it has no \<open>username\<close> property, and
  the endpoint answers with status 500, not 400.
\<close>

theorem invalid_body_counterexample:
  "get_prop JNull ''username'' = None
   \<and> POST demo_runtime demo_remote (Some JNull)
       = ([], \<lparr> status_code = 500,
                content = ErrorBody ''Failed to analyze profile. Please try again.'' \<rparr>)"
  by (simp add: POST_def try_block_def)

text \<open>
  Claim C7 at the concrete profile: the identifier \<open>octo cat!\<close> with blanks around it is looked up as \<open>octocat\<close>, and a body without the property is answered with status 400 and no remote call.
\<close>

theorem identifier_validation_witness:
  "demo_request \<noteq> JNull
   \<and> status_code (snd (POST demo_runtime demo_remote (Some demo_request))) \<noteq> 400
   \<and> (\<exists>cs. fst (POST demo_runtime demo_remote (Some demo_request))
              = Users_getByUsername ''octocat'' # cs)
   \<and> JObj [] \<noteq> JNull
   \<and> status_code (snd (POST demo_runtime demo_remote (Some (JObj [])))) = 400
   \<and> fst (POST demo_runtime demo_remote (Some (JObj []))) = []"
proof -
  have h1: "demo_request \<noteq> JNull"
    by (simp add: demo_request_def)
  have h2: "JObj [] \<noteq> JNull"
    by simp
  note good = identifier_validation [OF h1, of demo_runtime demo_remote]
  note bad = identifier_validation [OF h2, of demo_runtime demo_remote]
  have u: "get_prop demo_request ''username'' = Some (JStr '' octo cat! '')"
    by (simp add: demo_request_def)
  have ok: "\<not> (get_prop demo_request ''username'' = None
              \<or> \<not> is_string (get_prop demo_request ''username'')
              \<or> sanitize (string_of (get_prop demo_request ''username'')) = [])"
    by (simp add: u demo_sanitize)
  have a: "status_code (snd (POST demo_runtime demo_remote (Some demo_request))) \<noteq> 400"
    using good [THEN conjunct1] ok by blast
  have "\<exists>cs. fst (POST demo_runtime demo_remote (Some demo_request))
              = Users_getByUsername (sanitize (string_of (get_prop demo_request ''username''))) # cs"
    using good [THEN conjunct2, THEN conjunct2, THEN conjunct1] a by blast
  then have b: "\<exists>cs. fst (POST demo_runtime demo_remote (Some demo_request))
              = Users_getByUsername ''octocat'' # cs"
    by (simp add: u demo_sanitize)
  have missing: "get_prop (JObj []) ''username'' = None"
    by simp
  have c: "status_code (snd (POST demo_runtime demo_remote (Some (JObj [])))) = 400"
    using bad [THEN conjunct1] missing by blast
  have d: "fst (POST demo_runtime demo_remote (Some (JObj []))) = []"
    using bad [THEN conjunct2, THEN conjunct1] c by blast
  from h1 a b h2 c d show ?thesis
    by blast
qed


lemma demo_zeta_activity:
  "fetchCommitActivity demo_runtime demo_remote ''octocat'' ''zeta''
     \<in> set (GitHubData.commitActivity demo_bundle)"
proof -
  have "demo_repo ''zeta'' (Some 7) (Some 3) False \<in> set (sortedRepos_of (allRepos_of demo_listing))"
    by code_simp
  then have "fetchCommitActivity demo_runtime demo_remote ''octocat''
               (ApiRepo.name (demo_repo ''zeta'' (Some 7) (Some 3) False))
             \<in> set (GitHubData.commitActivity demo_bundle)"
    unfolding demo_bundle_def commitActivity_aggregate set_in_completion_order by simp
  then show ?thesis
    by (simp add: demo_repo_def)
qed

lemma analyzeTree_selectors:
  "CodeQualitySignals.repo (analyzeTree nm tree) = nm"
  "fileCount (analyzeTree nm tree) = int (length (paths_of_type ''blob'' tree))"
  "directoryStructure (analyzeTree nm tree) = take 15 (paths_of_type ''tree'' tree)"
  by (simp_all add: analyzeTree_def Let_def)

lemma topRepoTree_aggregate:
  "GitHubData.topRepoTree (snd (aggregate rt rm username u listed)) =
     (case GitHubData.repos (snd (aggregate rt rm username u listed)) of
        [] \<Rightarrow> None
      | topRepo # rest \<Rightarrow>
          snd (fetchTopRepoTree rm username topRepo
                 (GitHubData.codeQuality (snd (aggregate rt rm username u listed)))))"
  by (simp add: aggregate_def Let_def split: list.splits)

lemma topRepoReadme_aggregate:
  "GitHubData.topRepoReadme (snd (aggregate rt rm username u listed)) =
     (case GitHubData.repos (snd (aggregate rt rm username u listed)) of
        [] \<Rightarrow> None
      | topRepo # rest \<Rightarrow> snd (fetchTopRepoReadme rm username topRepo))"
  by (simp add: aggregate_def Let_def split: list.splits)

lemma in_completion_order_single: "in_completion_order t [x] = [x]"
  by (simp add: in_completion_order_def)

lemma Array_sort_single: "Array_sort cmp [x] = [x]"
  by (simp add: Array_sort_def)

lemma solo_ranked: "sortedRepos_of (allRepos_of solo_listing) = solo_listing"
  by (simp add: sortedRepos_of_def allRepos_of_def solo_listing_def demo_repo_def Array_sort_def)

lemma solo_repos:
  "GitHubData.repos (snd (aggregate rt rm ''octocat'' u solo_listing))
     = [toGitHubRepo (demo_repo ''zeta'' (Some 7) (Some 3) False)
          (probeReadme rm ''octocat'' (demo_repo ''zeta'' (Some 7) (Some 3) False))]"
  unfolding repos_aggregate solo_ranked
  by (simp add: solo_listing_def in_completion_order_single Array_sort_single)

lemma solo_quality:
  "GitHubData.codeQuality (snd (aggregate rt rm ''octocat'' u solo_listing))
     = [snd (fetchCodeQuality rm ''octocat'' ''zeta'')]"
  unfolding codeQuality_aggregate solo_ranked
  by (simp add: solo_listing_def in_completion_order_single demo_repo_def)

lemma flat_quality: "snd (fetchCodeQuality flat_remote ''octocat'' ''zeta'') = analyzeTree ''zeta'' flat_tree"
  by (simp add: fetchCodeQuality_def flat_remote_def solo_remote_def demo_remote_def)

lemma solo_tree_quality:
  "snd (fetchCodeQuality solo_remote ''octocat'' ''zeta'') = analyzeTree ''zeta'' demo_tree"
  by (simp add: fetchCodeQuality_def solo_remote_def demo_remote_def)

text \<open>
  Claim C9 at the concrete profile: the record of the repository \<open>zeta\<close> has one commit
  in total and one recent commit, the service returning no more than the page size.
\<close>

theorem commit_activity_bounds_witness:
  "snd (fetchGitHubData demo_runtime demo_remote ''octocat'') = Inr demo_bundle
   \<and> fetchCommitActivity demo_runtime demo_remote ''octocat'' ''zeta''
       \<in> set (GitHubData.commitActivity demo_bundle)
   \<and> repos_listCommits demo_remote ''octocat'' ''zeta'' None 0 = Inr []
   \<and> totalCommits (fetchCommitActivity demo_runtime demo_remote ''octocat'' ''zeta'') = 1
   \<and> recentCommits (fetchCommitActivity demo_runtime demo_remote ''octocat'' ''zeta'') = 1
   \<and> recentCommits (fetchCommitActivity demo_runtime demo_remote ''octocat'' ''zeta'') \<le> 100"
proof -
  let ?c = "fetchCommitActivity demo_runtime demo_remote ''octocat'' ''zeta''"
  note inst = commit_activity_bounds [OF demo_fetch demo_zeta_activity]
  have page: "\<forall>owner nm since n cs.
         repos_listCommits demo_remote owner nm since n = Inr cs \<longrightarrow> length cs \<le> n"
    by (auto simp: demo_remote_def split: if_splits)
  have nm: "CommitActivity.repo ?c = ''zeta''"
    by (rule repo_fetchCommitActivity)
  have latest: "repos_listCommits demo_remote ''octocat'' ''zeta'' None 1
                  = Inr [\<lparr> committer_date = Some ''2024-05-01T00:00:00Z'' \<rparr>]"
    by (simp add: demo_remote_def)
  have recent: "repos_listCommits demo_remote ''octocat'' ''zeta'' (Some (thirtyDaysAgo demo_runtime)) 100
                  = Inr [\<lparr> committer_date = Some ''2024-05-01T00:00:00Z'' \<rparr>]"
    by (simp add: demo_remote_def)
  from inst [THEN conjunct2, THEN conjunct1] latest recent
  have counts: "totalCommits ?c = 1 \<and> recentCommits ?c = 1"
    unfolding nm by fastforce
  from inst [THEN conjunct2, THEN conjunct2, THEN conjunct2] page
  have bound: "recentCommits ?c \<le> 100"
    by (rule mp)
  have zero: "repos_listCommits demo_remote ''octocat'' ''zeta'' None 0 = Inr []"
    by (simp add: demo_remote_def)
  from demo_fetch demo_zeta_activity zero counts bound show ?thesis
    by blast
qed

lemma chatty_fetch: "snd (fetchGitHubData demo_runtime chatty_remote ''octocat'') = Inr chatty_bundle"
  by (simp add: fetch_Inr chatty_remote_def solo_remote_def demo_remote_def chatty_bundle_def)

text \<open>
  Claim C9 as stated fails: served 150 commits for the last 30 days, the fetch records
  150 recent commits.
\<close>

theorem commit_activity_counterexample:
  "snd (fetchGitHubData demo_runtime chatty_remote ''octocat'') = Inr chatty_bundle
   \<and> map CommitActivity.repo (GitHubData.commitActivity chatty_bundle) = [''zeta'']
   \<and> map recentCommits (GitHubData.commitActivity chatty_bundle) = [150]"
proof -
  have "GitHubData.commitActivity chatty_bundle
          = [fetchCommitActivity demo_runtime chatty_remote ''octocat'' ''zeta'']"
    unfolding chatty_bundle_def commitActivity_aggregate solo_ranked
    by (simp add: solo_listing_def in_completion_order_single demo_repo_def)
  moreover have "recentCommits (fetchCommitActivity demo_runtime chatty_remote ''octocat'' ''zeta'') = 150"
    by (simp add: fetchCommitActivity_def chatty_remote_def)
  ultimately show ?thesis
    using chatty_fetch by (simp add: repo_fetchCommitActivity)
qed

lemma flat_fetch: "snd (fetchGitHubData demo_runtime flat_remote ''octocat'') = Inr flat_bundle"
  by (simp add: fetch_Inr flat_remote_def solo_remote_def demo_remote_def flat_bundle_def)

text \<open>
  Claim C8, at an input where it fails. The only repository of this profile has a tree of
  two files and no directory. Its tree is fetched and is not empty (the quality record
  counts two files), yet no file listing is produced: the listing is made only when the
  quality record lists a directory, and from a tree that is fetched again.
\<close>

theorem flat_repository_has_no_listing:
  "snd (fetchGitHubData demo_runtime flat_remote ''octocat'') = Inr flat_bundle
   \<and> git_getTree flat_remote 0 ''octocat'' ''zeta'' ''main'' = Inr flat_tree
   \<and> map name (GitHubData.repos flat_bundle) = [''zeta'']
   \<and> map fileCount (GitHubData.codeQuality flat_bundle) = [2]
   \<and> GitHubData.topRepoTree flat_bundle = None"
proof -
  have tree: "git_getTree flat_remote 0 ''octocat'' ''zeta'' ''main'' = Inr flat_tree"
    by (simp add: flat_remote_def)
  have names: "map name (GitHubData.repos flat_bundle) = [''zeta'']"
    by (simp add: flat_bundle_def solo_repos toGitHubRepo_def demo_repo_def)
  have quality: "GitHubData.codeQuality flat_bundle = [analyzeTree ''zeta'' flat_tree]"
    by (simp add: flat_bundle_def solo_quality flat_quality)
  have files: "map fileCount (GitHubData.codeQuality flat_bundle) = [2]"
    by (simp add: quality analyzeTree_selectors paths_of_type_def flat_tree_def)
  have dirs: "directoryStructure (analyzeTree ''zeta'' flat_tree) = []"
    by (simp add: analyzeTree_selectors paths_of_type_def flat_tree_def)
  have none: "GitHubData.topRepoTree flat_bundle = None"
    unfolding flat_bundle_def topRepoTree_aggregate
    unfolding flat_bundle_def [symmetric] quality
    by (simp add: flat_bundle_def solo_repos fetchTopRepoTree_def analyzeTree_selectors(1) dirs
          toGitHubRepo_def demo_repo_def)
  from flat_fetch tree names files none show ?thesis
    by blast
qed

lemma solo_fetch: "snd (fetchGitHubData demo_runtime solo_remote ''octocat'') = Inr solo_bundle"
  by (simp add: fetch_Inr solo_remote_def demo_remote_def solo_bundle_def)

lemma solo_groq:
  "analyzeWithGroq demo_runtime solo_remote d = Inr demo_analysis"
  by (simp add: analyzeWithGroq_def solo_remote_def demo_remote_def demo_runtime_parse demo_validated)

lemma solo_top:
  "GitHubData.topRepoTree solo_bundle = Some [''README.md'', ''src/main.ts'']
   \<and> GitHubData.topRepoReadme solo_bundle = Some ''# zeta''"
proof -
  have quality: "GitHubData.codeQuality solo_bundle = [analyzeTree ''zeta'' demo_tree]"
    by (simp add: solo_bundle_def solo_quality solo_tree_quality)
  have dirs: "directoryStructure (analyzeTree ''zeta'' demo_tree) = [''src'']"
    by (simp add: analyzeTree_selectors paths_of_type_def demo_tree_def)
  have blobs: "paths_of_type ''blob'' demo_tree = [''README.md'', ''src/main.ts'']"
    by (simp add: paths_of_type_def demo_tree_def)
  have tree: "GitHubData.topRepoTree solo_bundle = Some [''README.md'', ''src/main.ts'']"
    unfolding solo_bundle_def topRepoTree_aggregate
    unfolding solo_bundle_def [symmetric] quality
    by (simp add: solo_bundle_def solo_repos fetchTopRepoTree_def analyzeTree_selectors(1) dirs
          toGitHubRepo_def demo_repo_def solo_remote_def demo_remote_def blobs)
  have readme: "GitHubData.topRepoReadme solo_bundle = Some ''# zeta''"
    unfolding solo_bundle_def topRepoReadme_aggregate
    by (simp add: solo_repos fetchTopRepoReadme_def toGitHubRepo_def demo_repo_def
          solo_remote_def demo_remote_def)
  from tree readme show ?thesis by blast
qed

text \<open>
  Claim C2 as stated fails: the bundle of this profile holds a file listing and a README
  excerpt for its top repository, and the response is the one built from the bundle
  without them.
\<close>

theorem top_repo_excerpts_counterexample:
  "snd (fetchGitHubData demo_runtime solo_remote ''octocat'') = Inr solo_bundle
   \<and> GitHubData.topRepoTree solo_bundle = Some [''README.md'', ''src/main.ts'']
   \<and> GitHubData.topRepoReadme solo_bundle = Some ''# zeta''
   \<and> snd (POST demo_runtime solo_remote (Some demo_request))
       = success (solo_bundle\<lparr>topRepoTree := None, topRepoReadme := None\<rparr>)
           demo_analysis"
proof -
  have "snd (POST demo_runtime solo_remote (Some demo_request))
          = success solo_bundle demo_analysis"
    by (rule POST_proceeds [where s = "'' octo cat! ''"])
       (simp_all add: demo_request_def demo_sanitize solo_fetch solo_groq)
  then have "snd (POST demo_runtime solo_remote (Some demo_request))
       = success (solo_bundle\<lparr>topRepoTree := None, topRepoReadme := None\<rparr>)
           demo_analysis"
    by (simp add: success_def result_object_ignores_top)
  with solo_fetch solo_top show ?thesis
    by blast
qed

text \<open>
  Claim C2 at the concrete profile: the response holds the repositories and the total of the bundle, and the headline and an extra property of the critique unchanged.
\<close>

theorem response_carries_bundle_and_critique_witness:
  "content (snd (POST demo_runtime demo_remote (Some demo_request)))
     = ResultBody (result_object demo_bundle demo_analysis)
   \<and> repos (result_object demo_bundle demo_analysis)
       = GitHubData.repos demo_bundle
   \<and> totalStars (result_object demo_bundle demo_analysis)
       = GitHubData.totalStars demo_bundle
   \<and> get_prop (analysis (result_object demo_bundle demo_analysis))
        ''headline'' = Some (JStr ''Solid Engineer, Zero DevOps'')
   \<and> get_prop (analysis (result_object demo_bundle demo_analysis))
        ''confidence'' = Some (JStr ''high'')"
proof -
  let ?res = "result_object demo_bundle demo_analysis"
  have h: "content (snd (POST demo_runtime demo_remote (Some demo_request))) = ResultBody ?res"
    by (simp add: demo_POST success_def)
  from response_carries_bundle_and_critique [OF h] obtain body d reply parsed where
    req: "Some demo_request = Some body"
    and fetch: "snd (fetchGitHubData demo_runtime demo_remote
                       (sanitize (string_of (get_prop body ''username'')))) = Inr d"
    and parse: "JSON_parse demo_runtime reply = Some parsed"
    and r: "repos ?res = GitHubData.repos d"
    and t: "totalStars ?res = GitHubData.totalStars d"
    and others: "\<forall>k. k \<notin> set assigned_properties
                   \<longrightarrow> get_prop (analysis ?res) k = get_prop parsed k"
    by blast
  from req have body: "body = demo_request" by simp
  have "sanitize (string_of (get_prop demo_request ''username'')) = ''octocat''"
    by (simp add: demo_request_def demo_sanitize)
  with fetch body demo_fetch have d: "d = demo_bundle" by simp
  from parse have parsed: "parsed = demo_critique"
    by (simp add: demo_runtime_def split: if_splits)
  have k1: "''headline'' \<notin> set assigned_properties"
    by (simp add: assigned_properties_def)
  have k2: "''confidence'' \<notin> set assigned_properties"
    by (simp add: assigned_properties_def)
  from others k1 have a: "get_prop (analysis ?res) ''headline'' = get_prop parsed ''headline''"
    by blast
  from others k2 have b: "get_prop (analysis ?res) ''confidence'' = get_prop parsed ''confidence''"
    by blast
  have a': "get_prop demo_critique ''headline'' = Some (JStr ''Solid Engineer, Zero DevOps'')"
    by (simp add: demo_critique_def)
  have b': "get_prop demo_critique ''confidence'' = Some (JStr ''high'')"
    by (simp add: demo_critique_def)
  from h r t a b a' b' show ?thesis
    unfolding d parsed by simp
qed

lemma demo_theta_ranked: "\<exists>g \<in> set (GitHubData.repos demo_bundle). name g = ''theta''"
proof -
  have "demo_repo ''theta'' (Some 6) (Some 1) False \<in> set (sortedRepos_of (allRepos_of demo_listing))"
    by code_simp
  then have "toGitHubRepo (demo_repo ''theta'' (Some 6) (Some 1) False)
               (probeReadme demo_remote ''octocat'' (demo_repo ''theta'' (Some 6) (Some 1) False))
             \<in> set (GitHubData.repos demo_bundle)"
    unfolding demo_bundle_def set_repos_aggregate by (rule imageI)
  moreover have "name (toGitHubRepo (demo_repo ''theta'' (Some 6) (Some 1) False) b) = ''theta''" for b
    by (simp add: toGitHubRepo_def demo_repo_def)
  ultimately show ?thesis by blast
qed

text \<open>
  Claim C5 at the concrete profile: the repository lookup of the ranked repository \<open>theta\<close> is rejected, the fetch succeeds, and the quality record of \<open>theta\<close> is the placeholder.
\<close>

theorem failed_tree_fetch_gives_placeholder_witness:
  "users_getByUsername demo_remote ''octocat'' = Inr demo_user
   \<and> repos_listForUser demo_remote ''octocat'' = Inr demo_listing
   \<and> snd (fetchGitHubData demo_runtime demo_remote ''octocat'') = Inr demo_bundle
   \<and> (\<exists>g \<in> set (GitHubData.repos demo_bundle). name g = ''theta'')
   \<and> isl (repos_get demo_remote 0 ''octocat'' ''theta'')
   \<and> (\<exists>q \<in> set (GitHubData.codeQuality demo_bundle).
         CodeQualitySignals.repo q = ''theta''
       \<and> \<not> hasCI q \<and> \<not> hasTests q \<and> fileCount q = 0 \<and> directoryStructure q = [])"
proof -
  have h1: "users_getByUsername demo_remote ''octocat'' = Inr demo_user"
    by (simp add: demo_remote_def)
  have h2: "repos_listForUser demo_remote ''octocat'' = Inr demo_listing"
    by (simp add: demo_remote_def)
  have failed: "isl (repos_get demo_remote 0 ''octocat'' ''theta'')"
    by (simp add: demo_remote_def)
  from failed_tree_fetch_gives_placeholder [OF h1 h2, of demo_runtime] obtain d where
    fetch: "snd (fetchGitHubData demo_runtime demo_remote ''octocat'') = Inr d"
    and every: "\<forall>g \<in> set (GitHubData.repos d).
            (isl (repos_get demo_remote 0 ''octocat'' (name g))
              \<or> (\<exists>b. repos_get demo_remote 0 ''octocat'' (name g) = Inr b
                     \<and> isl (git_getTree demo_remote 0 ''octocat'' (name g) b)))
            \<longrightarrow> (\<exists>q \<in> set (GitHubData.codeQuality d). CodeQualitySignals.repo q = name g)
              \<and> (\<forall>q \<in> set (GitHubData.codeQuality d). CodeQualitySignals.repo q = name g \<longrightarrow>
                    \<not> hasCI q \<and> \<not> hasTests q \<and> \<not> hasDocs q \<and> \<not> hasLinting q
                  \<and> \<not> hasGitignore q \<and> \<not> hasContributing q \<and> \<not> hasChangelog q
                  \<and> \<not> hasDotGithub q \<and> \<not> hasEnvExample q \<and> \<not> hasDockerfile q
                  \<and> fileCount q = 0 \<and> directoryStructure q = [])"
    by blast
  from fetch demo_fetch have d: "d = demo_bundle" by simp
  from demo_theta_ranked obtain g where
    g: "g \<in> set (GitHubData.repos demo_bundle)" and nm: "name g = ''theta''"
    by blast
  from every g failed
  have "(\<exists>q \<in> set (GitHubData.codeQuality demo_bundle). CodeQualitySignals.repo q = ''theta'')
      \<and> (\<forall>q \<in> set (GitHubData.codeQuality demo_bundle). CodeQualitySignals.repo q = ''theta'' \<longrightarrow>
            \<not> hasCI q \<and> \<not> hasTests q \<and> fileCount q = 0 \<and> directoryStructure q = [])"
    unfolding d nm [symmetric] by blast
  then have "\<exists>q \<in> set (GitHubData.codeQuality demo_bundle).
         CodeQualitySignals.repo q = ''theta''
       \<and> \<not> hasCI q \<and> \<not> hasTests q \<and> fileCount q = 0 \<and> directoryStructure q = []"
    by blast
  with h1 h2 demo_fetch demo_theta_ranked failed show ?thesis
    by blast
qed

text \<open>
  Claim C3 at the concrete runtime: the clamped critique holds \<open>NaN\<close> as its
  code-quality score.
\<close>

theorem non_numeric_score_becomes_NaN_witness:
  "validateAnalysis demo_runtime odd_critique = Inr odd_result
   \<and> get_prop odd_result ''code_quality_score'' = Some (JNum NaN)"
  using non_numeric_score_becomes_NaN [of demo_runtime] by blast

text \<open>
  Claim C8 at the concrete profile: two files are counted in the tree of the top
  repository, and there is no file listing.
\<close>

theorem flat_repository_has_no_listing_witness:
  "map fileCount (GitHubData.codeQuality flat_bundle) = [2]
   \<and> GitHubData.topRepoTree flat_bundle = None"
  using flat_repository_has_no_listing by blast

text \<open>
  Claim C10 at the concrete runtime and remote: no remote call, status 500.
\<close>

theorem invalid_json_body_is_server_error_witness:
  "fst (POST demo_runtime demo_remote None) = []
   \<and> status_code (snd (POST demo_runtime demo_remote None)) = 500"
  using invalid_json_body_is_server_error [of demo_runtime demo_remote] by simp

end
